theory Spec2Isabelle
  imports Complex_Main "HOL-Library.Sublist" "HOL-Library.Char_ord" "HOL-Library.List_Lexorder"
begin

section \<open>Values, posts and errors\<close>

text \<open>
  \<^verbatim>\<open>scorers.py\<close> reads a post through \<^verbatim>\<open>scored_post.info[...]\<close>: \<^verbatim>\<open>info\<close> is a
  dictionary decoded from JSON. A value stored in it is an integer, a float, a string,
  \<^verbatim>\<open>None\<close> or a nested dictionary. Python's unbounded integers are \<open>int\<close>; floats are
  idealised as \<open>real\<close>.
\<close>

datatype pyval =
    PInt int
  | PFloat real
  | PStr string
  | PNone
  | PDict "string \<Rightarrow> pyval option"

record ScoredPost =
  info :: "string \<Rightarrow> pyval option"

text \<open>What a method returns: \<^verbatim>\<open>None\<close> (the abstract methods' \<^verbatim>\<open>pass\<close>) or a number.\<close>

datatype pyres = RNone | RNum real

text \<open>
  The exceptions the module can raise. \<open>GmeanUnspecified\<close> is not a Python exception: it
  marks a call of the geometric mean outside the domain on which the specification
  defines it.
\<close>

datatype error =
    KeyError string
  | TypeError
  | ValueError
  | ZeroDivisionError
  | AttributeError
  | OverflowError
  | GmeanUnspecified

section \<open>Calls: a result or an exception, and the post after the call\<close>

text \<open>
  A method receives a reference to the caller's post. A call is modelled with the post
  passed explicitly: it yields the value returned or the exception raised, together with
  the post as it is after the call.
\<close>

type_synonym 'a py = "ScoredPost \<Rightarrow> (error + 'a) \<times> ScoredPost"

definition py_return :: "'a \<Rightarrow> 'a py" where
  "py_return x = (\<lambda>post. (Inr x, post))"

definition py_raise :: "error \<Rightarrow> 'a py" where
  "py_raise e = (\<lambda>post. (Inl e, post))"

definition py_bind :: "'a py \<Rightarrow> ('a \<Rightarrow> 'b py) \<Rightarrow> 'b py" where
  "py_bind m f = (\<lambda>post. case m post of
                      (Inl e, post') \<Rightarrow> (Inl e, post')
                    | (Inr x, post') \<Rightarrow> f x post')"

definition py_lift :: "error + 'a \<Rightarrow> 'a py" where
  "py_lift r = (case r of Inl e \<Rightarrow> py_raise e | Inr x \<Rightarrow> py_return x)"

text \<open>\<^verbatim>\<open>scored_post.info\<close>: the attribute read.\<close>

definition scored_post_info :: "(string \<Rightarrow> pyval option) py" where
  "scored_post_info = (\<lambda>post. (Inr (info post), post))"

text \<open>\<^verbatim>\<open>d[key]\<close> on a dictionary raises \<^verbatim>\<open>KeyError\<close> for a missing key.\<close>

definition dict_getitem :: "(string \<Rightarrow> pyval option) \<Rightarrow> string \<Rightarrow> error + pyval" where
  "dict_getitem d key = (case d key of None \<Rightarrow> Inl (KeyError key) | Some v \<Rightarrow> Inr v)"

text \<open>
  \<^verbatim>\<open>v[key]\<close> with a string key on any value: only a dictionary can be subscripted so
  (an integer, a float and \<^verbatim>\<open>None\<close> are not subscriptable, a string wants an integer
  index).
\<close>

fun getitem :: "pyval \<Rightarrow> string \<Rightarrow> error + pyval" where
  "getitem (PDict d) key = dict_getitem d key"
| "getitem _ key = Inl TypeError"

text \<open>\<^verbatim>\<open>scored_post.info[key]\<close>\<close>

definition info_item :: "string \<Rightarrow> pyval py" where
  "info_item key = py_bind scored_post_info (\<lambda>d. py_lift (dict_getitem d key))"

text \<open>\<^verbatim>\<open>scored_post.info["account"]["followers_count"]\<close>\<close>

definition account_followers_count :: "pyval py" where
  "account_followers_count =
     py_bind (info_item ''account'') (\<lambda>account. py_lift (getitem account ''followers_count''))"

section \<open>Arithmetic\<close>

text \<open>\<^verbatim>\<open>v == 0\<close>: true for the numbers equal to zero, false for every other value.\<close>

fun py_eq_zero :: "pyval \<Rightarrow> bool" where
  "py_eq_zero (PInt i) = (i = 0)"
| "py_eq_zero (PFloat x) = (x = 0)"
| "py_eq_zero _ = False"

text \<open>
  An integer handed to a float routine is converted to a double first, rounding to the
  nearest. The largest double is \<open>2^1024 - 2^971\<close>; an integer of magnitude
  \<open>2^1024 - 2^970\<close> or more rounds beyond it and the conversion raises
  \<^verbatim>\<open>OverflowError\<close> (int too large to convert to float). Below that bound the float is
  idealised as the integer's real value.
\<close>

definition float_limit :: int where
  "float_limit = 2 ^ 1024 - 2 ^ 970"

definition int_to_float :: "int \<Rightarrow> error + real" where
  "int_to_float i = (if float_limit \<le> \<bar>i\<bar> then Inl OverflowError else Inr (real_of_int i))"

text \<open>
  \<^verbatim>\<open>math.sqrt(v)\<close>: \<^verbatim>\<open>TypeError\<close> on a value that is not a number; an integer is
  converted to a float, which may overflow; then \<^verbatim>\<open>ValueError\<close> (math domain error) on
  a negative number.
\<close>

fun math_sqrt :: "pyval \<Rightarrow> error + real" where
  "math_sqrt (PInt i) =
     (case int_to_float i of
        Inl e \<Rightarrow> Inl e
      | Inr x \<Rightarrow> if x < 0 then Inl ValueError else Inr (sqrt x))"
| "math_sqrt (PFloat x) = (if x < 0 then Inl ValueError else Inr (sqrt x))"
| "math_sqrt _ = Inl TypeError"

text \<open>\<^verbatim>\<open>a / b\<close> on floats.\<close>

definition py_truediv :: "real \<Rightarrow> real \<Rightarrow> error + real" where
  "py_truediv a b = (if b = 0 then Inl ZeroDivisionError else Inr (a / b))"

text \<open>\<^verbatim>\<open>a * b\<close> on what methods return: \<^verbatim>\<open>None\<close> cannot be multiplied.\<close>

fun py_mul :: "pyres \<Rightarrow> pyres \<Rightarrow> error + pyres" where
  "py_mul (RNum a) (RNum b) = Inr (RNum (a * b))"
| "py_mul _ _ = Inl TypeError"

text \<open>
  Modelled from the spec: \<^verbatim>\<open>scipy.stats.gmean\<close> is an external library routine, absent
  from the repository. The specification fixes it as: the geometric mean of n non-negative
  values \<open>v1..vn\<close> is \<open>(v1 \<cdot> v2 \<cdot> \<dots> \<cdot> vn)^(1/n)\<close>, and leaves it undefined elsewhere. On a
  list that holds anything but non-negative numbers the model answers \<open>GmeanUnspecified\<close>.
\<close>

fun nonneg_number :: "pyval \<Rightarrow> real option" where
  "nonneg_number (PInt i) = (if 0 \<le> i then Some (real_of_int i) else None)"
| "nonneg_number (PFloat x) = (if 0 \<le> x then Some x else None)"
| "nonneg_number _ = None"

definition geometric_mean :: "real list \<Rightarrow> real" where
  "geometric_mean vs = prod_list vs powr (1 / real (length vs))"

definition gmean :: "pyval list \<Rightarrow> error + real" where
  "gmean vs = (case those (map nonneg_number vs) of
                 None \<Rightarrow> Inl GmeanUnspecified
               | Some xs \<Rightarrow> Inr (geometric_mean xs))"

section \<open>Classes and method resolution order\<close>

text \<open>
  A class object carries its name and its base classes, as the \<^verbatim>\<open>class\<close> statement
  gives them.
\<close>

datatype cls = Cls (cname: string) (cbases: "cls list")

definition object :: cls where
  "object = Cls ''object'' []"

definition ABC :: cls where
  "ABC = Cls ''ABC'' [object]"

definition Weight :: cls where
  "Weight = Cls ''Weight'' [ABC]"

definition UniformWeight :: cls where
  "UniformWeight = Cls ''UniformWeight'' [Weight]"

definition InverseFollowerWeight :: cls where
  "InverseFollowerWeight = Cls ''InverseFollowerWeight'' [Weight]"

definition Scorer :: cls where
  "Scorer = Cls ''Scorer'' [ABC]"

definition SimpleScorer :: cls where
  "SimpleScorer = Cls ''SimpleScorer'' [UniformWeight, Scorer]"

definition SimpleWeightedScorer :: cls where
  "SimpleWeightedScorer = Cls ''SimpleWeightedScorer'' [InverseFollowerWeight, SimpleScorer]"

definition ExtendedSimpleScorer :: cls where
  "ExtendedSimpleScorer = Cls ''ExtendedSimpleScorer'' [UniformWeight, Scorer]"

definition ExtendedSimpleWeightedScorer :: cls where
  "ExtendedSimpleWeightedScorer =
     Cls ''ExtendedSimpleWeightedScorer'' [InverseFollowerWeight, ExtendedSimpleScorer]"

text \<open>
  Python linearises the bases of a class (C3): the order of a class is the class itself,
  then the merge of its bases' orders and of the list of bases. The merge takes, again and
  again, the first head of a sequence that is in the tail of no sequence; with no such
  head the hierarchy is inconsistent and the class statement fails.
\<close>

fun find_head :: "cls list list \<Rightarrow> cls list list \<Rightarrow> cls option" where
  "find_head seqs [] = None"
| "find_head seqs ([] # rest) = find_head seqs rest"
| "find_head seqs ((h # t) # rest) =
     (if list_ex (\<lambda>s. h \<in> set (tl s)) seqs then find_head seqs rest else Some h)"

definition drop_head :: "cls \<Rightarrow> cls list \<Rightarrow> cls list" where
  "drop_head h s = (case s of [] \<Rightarrow> [] | x # t \<Rightarrow> if x = h then t else s)"

function merge :: "cls list list \<Rightarrow> cls list option" where
  "merge seqs =
     (let live = filter (\<lambda>s. s \<noteq> []) seqs in
      if live = [] then Some []
      else (case find_head live live of
              None \<Rightarrow> None
            | Some h \<Rightarrow> map_option ((#) h) (merge (map (drop_head h) live))))"
  by pat_completeness auto

lemma find_head_is_head:
  "find_head seqs rest = Some h \<Longrightarrow> \<exists>s \<in> set rest. s \<noteq> [] \<and> hd s = h"
  by (induction seqs rest rule: find_head.induct) (auto split: if_splits)

lemma drop_head_le: "length (drop_head h s) \<le> length s"
  by (simp add: drop_head_def split: list.splits)

lemma drop_head_less: "s \<noteq> [] \<Longrightarrow> hd s = h \<Longrightarrow> length (drop_head h s) < length s"
  by (cases s) (simp_all add: drop_head_def)

lemma sum_drop_head_le:
  "sum_list (map (\<lambda>s. length (drop_head h s)) live) \<le> sum_list (map length live)"
  by (induction live) (simp_all add: drop_head_le add_le_mono)

lemma sum_drop_head_less:
  "\<exists>s \<in> set live. s \<noteq> [] \<and> hd s = h \<Longrightarrow>
   sum_list (map (\<lambda>s. length (drop_head h s)) live) < sum_list (map length live)"
proof (induction live)
  case Nil
  then show ?case by simp
next
  case (Cons a live)
  show ?case
  proof (cases "a \<noteq> [] \<and> hd a = h")
    case True
    then have "length (drop_head h a) < length a" by (simp add: drop_head_less)
    then show ?thesis using sum_drop_head_le[of h live] by simp
  next
    case False
    with Cons.prems have "\<exists>s \<in> set live. s \<noteq> [] \<and> hd s = h" by auto
    from Cons.IH[OF this] show ?thesis using drop_head_le[of h a] by simp
  qed
qed

lemma sum_filter_le:
  "sum_list (map length (filter (\<lambda>s. s \<noteq> []) seqs)) \<le> sum_list (map length seqs)"
  by (induction seqs) simp_all

termination merge
proof (relation "measure (\<lambda>seqs. sum_list (map length seqs))")
  show "wf (measure (\<lambda>seqs. sum_list (map length seqs)))" by simp
next
  fix seqs live h
  assume live: "live = filter (\<lambda>s. s \<noteq> []) seqs" and "live \<noteq> []"
    and fh: "find_head live live = Some h"
  from find_head_is_head[OF fh] have "\<exists>s \<in> set live. s \<noteq> [] \<and> hd s = h" .
  from sum_drop_head_less[OF this]
  have "sum_list (map length (map (drop_head h) live)) < sum_list (map length live)"
    by (simp add: comp_def)
  also have "\<dots> \<le> sum_list (map length seqs)"
    unfolding live by (rule sum_filter_le)
  finally show "(map (drop_head h) live, seqs) \<in> measure (\<lambda>seqs. sum_list (map length seqs))"
    by simp
qed

fun mro :: "cls \<Rightarrow> cls list option" where
  "mro (Cls name bases) =
     (case those (map mro bases) of
        None \<Rightarrow> None
      | Some ls \<Rightarrow> map_option ((#) (Cls name bases)) (merge (ls @ [bases])))"

text \<open>\<^verbatim>\<open>issubclass(c, d)\<close>: \<open>d\<close> is in the resolution order of \<open>c\<close>.\<close>

definition issubclass :: "cls \<Rightarrow> cls \<Rightarrow> bool" where
  "issubclass c d = (case mro c of None \<Rightarrow> False | Some order \<Rightarrow> d \<in> set order)"

section \<open>The weighting classes\<close>

text \<open>
  Every method is a \<^verbatim>\<open>classmethod\<close>: its first parameter is the class it was called
  on. \<^verbatim>\<open>Weight.weight\<close> is abstract, its body is \<^verbatim>\<open>pass\<close>.
\<close>

definition Weight_weight :: "cls \<Rightarrow> pyres py" where
  "Weight_weight cls = py_return RNone"

definition UniformWeight_weight :: "cls \<Rightarrow> pyres py" where
  "UniformWeight_weight cls = py_return (RNum 1)"

definition InverseFollowerWeight_weight :: "cls \<Rightarrow> pyres py" where
  "InverseFollowerWeight_weight cls =
     py_bind account_followers_count (\<lambda>n.
       if py_eq_zero n then py_return (RNum 0)
       else py_bind account_followers_count (\<lambda>m.
              py_bind (py_lift (math_sqrt m)) (\<lambda>root.
                py_bind (py_lift (py_truediv 1 root)) (\<lambda>w. py_return (RNum w)))))"

text \<open>
  Looking \<^verbatim>\<open>weight\<close> up along a resolution order (or, for \<^verbatim>\<open>super()\<close>, along the part
  of it after the calling class): the first class that defines the method supplies it.
\<close>

fun weight_in :: "cls list \<Rightarrow> cls \<Rightarrow> pyres py" where
  "weight_in [] cls = py_raise AttributeError"
| "weight_in (c # rest) cls =
     (if c = Weight then Weight_weight cls
      else if c = UniformWeight then UniformWeight_weight cls
      else if c = InverseFollowerWeight then InverseFollowerWeight_weight cls
      else weight_in rest cls)"

section \<open>The scoring classes\<close>

text \<open>
  A \<^verbatim>\<open>score\<close> body takes what its \<^verbatim>\<open>super()\<close> calls resolve to as parameters.
  \<^verbatim>\<open>Scorer.score\<close> is abstract.
\<close>

definition Scorer_score :: "cls \<Rightarrow> pyres py" where
  "Scorer_score cls = py_return RNone"

definition SimpleScorer_score :: "pyres py \<Rightarrow> cls \<Rightarrow> pyres py" where
  "SimpleScorer_score super_weight cls =
     py_bind (info_item ''reblogs_count'') (\<lambda>reblogs.
       py_bind (info_item ''favourites_count'') (\<lambda>favourites.
         py_bind (py_lift (gmean [reblogs, favourites])) (\<lambda>metric_average.
           py_bind super_weight (\<lambda>w. py_lift (py_mul (RNum metric_average) w)))))"

definition SimpleWeightedScorer_score :: "pyres py \<Rightarrow> pyres py \<Rightarrow> cls \<Rightarrow> pyres py" where
  "SimpleWeightedScorer_score super_score super_weight cls =
     py_bind super_score (\<lambda>s. py_bind super_weight (\<lambda>w. py_lift (py_mul s w)))"

definition ExtendedSimpleScorer_score :: "pyres py \<Rightarrow> cls \<Rightarrow> pyres py" where
  "ExtendedSimpleScorer_score super_weight cls =
     py_bind (info_item ''reblogs_count'') (\<lambda>reblogs.
       py_bind (info_item ''favourites_count'') (\<lambda>favourites.
         py_bind (info_item ''replies_count'') (\<lambda>replies.
           py_bind (py_lift (gmean [reblogs, favourites, replies])) (\<lambda>metric_average.
             py_bind super_weight (\<lambda>w. py_lift (py_mul (RNum metric_average) w))))))"

definition ExtendedSimpleWeightedScorer_score :: "pyres py \<Rightarrow> pyres py \<Rightarrow> cls \<Rightarrow> pyres py" where
  "ExtendedSimpleWeightedScorer_score super_score super_weight cls =
     py_bind super_score (\<lambda>s. py_bind super_weight (\<lambda>w. py_lift (py_mul s w)))"

text \<open>
  Looking \<^verbatim>\<open>score\<close> up along a resolution order. Inside the body found at class \<open>c\<close>,
  \<^verbatim>\<open>super()\<close> searches the rest of the order of \<open>cls\<close>, after \<open>c\<close>.
\<close>

fun score_in :: "cls list \<Rightarrow> cls \<Rightarrow> pyres py" where
  "score_in [] cls = py_raise AttributeError"
| "score_in (c # rest) cls =
     (if c = Scorer then Scorer_score cls
      else if c = SimpleScorer then SimpleScorer_score (weight_in rest cls) cls
      else if c = SimpleWeightedScorer then
        SimpleWeightedScorer_score (score_in rest cls) (weight_in rest cls) cls
      else if c = ExtendedSimpleScorer then ExtendedSimpleScorer_score (weight_in rest cls) cls
      else if c = ExtendedSimpleWeightedScorer then
        ExtendedSimpleWeightedScorer_score (score_in rest cls) (weight_in rest cls) cls
      else score_in rest cls)"

text \<open>\<^verbatim>\<open>C.weight(scored_post)\<close> and \<^verbatim>\<open>C.score(scored_post)\<close> for a class \<open>C\<close>.\<close>

definition weight :: "cls \<Rightarrow> pyres py" where
  "weight C = (case mro C of None \<Rightarrow> py_raise TypeError | Some order \<Rightarrow> weight_in order C)"

definition score :: "cls \<Rightarrow> pyres py" where
  "score C = (case mro C of None \<Rightarrow> py_raise TypeError | Some order \<Rightarrow> score_in order C)"

section \<open>The assumed data model\<close>

text \<open>
  Modelled from the spec: the post record is defined outside the repository. The
  specification assumes three engagement counters and the author's follower count, all
  present and non-negative integers. \<open>data_model post r f y n\<close> says that \<open>post\<close> is such a
  record, with \<open>r\<close> reblogs, \<open>f\<close> favourites, \<open>y\<close> replies and \<open>n\<close> followers. The keys are
  the ones the code reads.
\<close>

definition data_model :: "ScoredPost \<Rightarrow> int \<Rightarrow> int \<Rightarrow> int \<Rightarrow> int \<Rightarrow> bool" where
  "data_model post r f y n \<longleftrightarrow>
     info post ''reblogs_count'' = Some (PInt r) \<and>
     info post ''favourites_count'' = Some (PInt f) \<and>
     info post ''replies_count'' = Some (PInt y) \<and>
     (case info post ''account'' of
        Some (PDict account) \<Rightarrow> account ''followers_count'' = Some (PInt n)
      | _ \<Rightarrow> False) \<and>
     0 \<le> r \<and> 0 \<le> f \<and> 0 \<le> y \<and> 0 \<le> n"

text \<open>A post built from four numbers, for concrete instances.\<close>

definition mk_post :: "int \<Rightarrow> int \<Rightarrow> int \<Rightarrow> int \<Rightarrow> ScoredPost" where
  "mk_post r f y n =
     \<lparr>info = [''reblogs_count'' \<mapsto> PInt r, ''favourites_count'' \<mapsto> PInt f,
             ''replies_count'' \<mapsto> PInt y,
             ''account'' \<mapsto> PDict [''followers_count'' \<mapsto> PInt n]]\<rparr>"

text \<open>A call that hands the post back as it received it.\<close>

definition reads_only :: "'a py \<Rightarrow> bool" where
  "reads_only m \<longleftrightarrow> (\<forall>post. snd (m post) = post)"

section \<open>The registry\<close>

text \<open>
  \<^verbatim>\<open>get_scorers\<close> inspects the module it lives in. A module attribute holds a class,
  a module, a function or some other object; the namespace lists the attributes in the
  order the module binds them (the implicit ones first). \<^verbatim>\<open>ScoredPost\<close> is imported
  under \<^verbatim>\<open>TYPE_CHECKING\<close> only and is not bound at run time.
\<close>

datatype member = ClassObj cls | ModuleObj | FunctionObj | OtherObj

definition module_namespace :: "(string \<times> member) list" where
  "module_namespace =
     [(''__name__'', OtherObj), (''__doc__'', OtherObj), (''__package__'', OtherObj),
      (''__loader__'', OtherObj), (''__spec__'', OtherObj), (''__file__'', OtherObj),
      (''__cached__'', OtherObj), (''__builtins__'', OtherObj),
      (''annotations'', OtherObj),
      (''importlib'', ModuleObj),
      (''inspect'', ModuleObj),
      (''ABC'', ClassObj ABC), (''abstractmethod'', FunctionObj),
      (''sqrt'', FunctionObj),
      (''TYPE_CHECKING'', OtherObj),
      (''stats'', ModuleObj),
      (''Weight'', ClassObj Weight),
      (''UniformWeight'', ClassObj UniformWeight),
      (''InverseFollowerWeight'', ClassObj InverseFollowerWeight),
      (''Scorer'', ClassObj Scorer),
      (''SimpleScorer'', ClassObj SimpleScorer),
      (''SimpleWeightedScorer'', ClassObj SimpleWeightedScorer),
      (''ExtendedSimpleScorer'', ClassObj ExtendedSimpleScorer),
      (''ExtendedSimpleWeightedScorer'', ClassObj ExtendedSimpleWeightedScorer),
      (''get_scorers'', FunctionObj)]"

text \<open>
  \<^verbatim>\<open>inspect.getmembers(module, inspect.isclass)\<close>: the attributes that hold a class,
  as pairs of name and class, sorted by name.
\<close>

definition getmembers_isclass :: "(string \<times> member) list \<Rightarrow> (string \<times> cls) list" where
  "getmembers_isclass ns = sort_key fst [(name, c). (name, ClassObj c) \<leftarrow> ns]"

text \<open>
  \<^verbatim>\<open>s.replace(old, new)\<close>: every occurrence of \<open>old\<close> in \<open>s\<close>, found from left to right
  without overlap, is replaced by \<open>new\<close>; an empty \<open>old\<close> matches before every character
  and at the end.
\<close>

function py_replace :: "string \<Rightarrow> string \<Rightarrow> string \<Rightarrow> string" where
  "py_replace [] new s = new @ concat (map (\<lambda>c. c # new) s)"
| "py_replace (x # old) new [] = []"
| "py_replace (x # old) new (c # s) =
     (if prefix (x # old) (c # s)
      then new @ py_replace (x # old) new (drop (length (x # old)) (c # s))
      else c # py_replace (x # old) new s)"
  by pat_completeness auto
termination
  by (relation "measure (\<lambda>(old, new, s). length s)") auto

text \<open>
  A dictionary built by a comprehension, kept as the list of its items in insertion order:
  storing under a key already present replaces the value in place.
\<close>

fun dict_setitem :: "('k \<times> 'v) list \<Rightarrow> 'k \<Rightarrow> 'v \<Rightarrow> ('k \<times> 'v) list" where
  "dict_setitem [] k v = [(k, v)]"
| "dict_setitem ((k', v') # d) k v =
     (if k' = k then (k, v) # d else (k', v') # dict_setitem d k v)"

definition dict_of_items :: "('k \<times> 'v) list \<Rightarrow> ('k \<times> 'v) list" where
  "dict_of_items items = foldl (\<lambda>d (k, v). dict_setitem d k v) [] items"

text \<open>
  \<^verbatim>\<open>get_scorers\<close> over a module namespace. The function takes no argument; what it
  reads is the namespace of its own module, \<open>module_namespace\<close> for the module as it is.
\<close>

definition get_scorers_in :: "(string \<times> member) list \<Rightarrow> (string \<times> cls) list" where
  "get_scorers_in ns =
     (let all_classes = getmembers_isclass ns;
          scorers = filter (\<lambda>c. snd c \<noteq> Scorer \<and> issubclass (snd c) Scorer) all_classes
      in dict_of_items (map (\<lambda>scorer. (py_replace ''Scorer'' '''' (fst scorer), snd scorer)) scorers))"

definition get_scorers :: "(string \<times> cls) list" where
  "get_scorers = get_scorers_in module_namespace"

section \<open>Resolution orders of the module's classes\<close>

lemma mro_UniformWeight:
  "mro UniformWeight = Some [UniformWeight, Weight, ABC, object]"
  by code_simp

lemma mro_InverseFollowerWeight:
  "mro InverseFollowerWeight = Some [InverseFollowerWeight, Weight, ABC, object]"
  by code_simp

lemma mro_SimpleScorer:
  "mro SimpleScorer = Some [SimpleScorer, UniformWeight, Weight, Scorer, ABC, object]"
  by code_simp

lemma mro_SimpleWeightedScorer:
  "mro SimpleWeightedScorer =
     Some [SimpleWeightedScorer, InverseFollowerWeight, SimpleScorer, UniformWeight,
           Weight, Scorer, ABC, object]"
  by code_simp

lemma mro_ExtendedSimpleScorer:
  "mro ExtendedSimpleScorer =
     Some [ExtendedSimpleScorer, UniformWeight, Weight, Scorer, ABC, object]"
  by code_simp

lemma mro_ExtendedSimpleWeightedScorer:
  "mro ExtendedSimpleWeightedScorer =
     Some [ExtendedSimpleWeightedScorer, InverseFollowerWeight, ExtendedSimpleScorer,
           UniformWeight, Weight, Scorer, ABC, object]"
  by code_simp

lemmas class_defs =
  object_def ABC_def Weight_def UniformWeight_def InverseFollowerWeight_def Scorer_def
  SimpleScorer_def SimpleWeightedScorer_def ExtendedSimpleScorer_def
  ExtendedSimpleWeightedScorer_def

text \<open>What each call resolves to.\<close>

lemma weight_UniformWeight: "weight UniformWeight = UniformWeight_weight UniformWeight"
  unfolding weight_def mro_UniformWeight by (simp add: class_defs)

lemma weight_InverseFollowerWeight:
  "weight InverseFollowerWeight = InverseFollowerWeight_weight InverseFollowerWeight"
  unfolding weight_def mro_InverseFollowerWeight by (simp add: class_defs)

lemma score_SimpleScorer:
  "score SimpleScorer = SimpleScorer_score (UniformWeight_weight SimpleScorer) SimpleScorer"
  unfolding score_def mro_SimpleScorer by (simp add: class_defs)

lemma score_SimpleWeightedScorer:
  "score SimpleWeightedScorer =
     SimpleWeightedScorer_score
       (SimpleScorer_score (UniformWeight_weight SimpleWeightedScorer) SimpleWeightedScorer)
       (InverseFollowerWeight_weight SimpleWeightedScorer) SimpleWeightedScorer"
  unfolding score_def mro_SimpleWeightedScorer by (simp add: class_defs)

lemma score_ExtendedSimpleScorer:
  "score ExtendedSimpleScorer =
     ExtendedSimpleScorer_score (UniformWeight_weight ExtendedSimpleScorer) ExtendedSimpleScorer"
  unfolding score_def mro_ExtendedSimpleScorer by (simp add: class_defs)

lemma score_ExtendedSimpleWeightedScorer:
  "score ExtendedSimpleWeightedScorer =
     ExtendedSimpleWeightedScorer_score
       (ExtendedSimpleScorer_score (UniformWeight_weight ExtendedSimpleWeightedScorer)
          ExtendedSimpleWeightedScorer)
       (InverseFollowerWeight_weight ExtendedSimpleWeightedScorer) ExtendedSimpleWeightedScorer"
  unfolding score_def mro_ExtendedSimpleWeightedScorer by (simp add: class_defs)

section \<open>Evaluating the method bodies on a post of the data model\<close>

lemma info_item_Some: "info post key = Some v \<Longrightarrow> info_item key post = (Inr v, post)"
  by (simp add: info_item_def py_bind_def scored_post_info_def dict_getitem_def py_lift_def
      py_return_def)

lemma info_item_None:
  "info post key = None \<Longrightarrow> info_item key post = (Inl (KeyError key), post)"
  by (simp add: info_item_def py_bind_def scored_post_info_def dict_getitem_def py_lift_def
      py_raise_def)

lemma data_model_account:
  assumes "data_model post r f y n"
  shows "account_followers_count post = (Inr (PInt n), post)"
proof -
  from assms obtain account where a: "info post ''account'' = Some (PDict account)"
    and n: "account ''followers_count'' = Some (PInt n)"
    by (auto simp: data_model_def split: option.splits pyval.splits)
  show ?thesis
    unfolding account_followers_count_def
    by (simp add: info_item_Some[OF a] dict_getitem_def n py_lift_def
        py_return_def py_bind_def)
qed

lemma float_limit_pos: "0 < float_limit"
  by (simp add: float_limit_def)

lemma float_limit_le_2_1024: "float_limit \<le> 2 ^ 1024"
  by (simp add: float_limit_def)

lemma below_float_limit: "\<bar>i\<bar> \<le> 2 ^ 64 \<Longrightarrow> \<bar>i\<bar> < float_limit"
proof -
  assume "\<bar>i\<bar> \<le> 2 ^ 64"
  also have "(2 :: int) ^ 64 < 2 ^ 970" by (rule power_strict_increasing) simp_all
  also have "(2 :: int) ^ 970 \<le> 2 ^ 1024 - 2 ^ 970"
  proof -
    have "(2 :: int) * 2 ^ 970 \<le> 2 ^ 54 * 2 ^ 970" by (intro mult_right_mono) simp_all
    also have "(2 :: int) ^ 54 * 2 ^ 970 = 2 ^ 1024" by (simp flip: power_add)
    finally show ?thesis by simp
  qed
  finally show ?thesis by (simp add: float_limit_def)
qed

lemma math_sqrt_in_range:
  "0 \<le> n \<Longrightarrow> n < float_limit \<Longrightarrow> math_sqrt (PInt n) = Inr (sqrt (real_of_int n))"
  by (simp add: int_to_float_def)

lemma math_sqrt_overflow: "float_limit \<le> \<bar>n\<bar> \<Longrightarrow> math_sqrt (PInt n) = Inl OverflowError"
  by (simp add: int_to_float_def)

lemma InverseFollowerWeight_weight_value:
  assumes "data_model post r f y n" and "n < float_limit"
  shows "InverseFollowerWeight_weight cls post =
           (Inr (RNum (if n = 0 then 0 else 1 / sqrt (real_of_int n))), post)"
proof -
  note acc = data_model_account[OF assms(1)]
  from assms(1) have n0: "0 \<le> n" by (simp add: data_model_def)
  show ?thesis
  proof (cases "n = 0")
    case True
    then show ?thesis
      unfolding InverseFollowerWeight_weight_def
      by (simp add: acc py_bind_def py_return_def)
  next
    case False
    with n0 have "0 < n" by simp
    then have "sqrt (real_of_int n) \<noteq> 0" by simp
    with False show ?thesis
      unfolding InverseFollowerWeight_weight_def
      by (simp add: acc py_bind_def py_return_def py_lift_def py_truediv_def
          math_sqrt_in_range[OF n0 assms(2)] del: math_sqrt.simps)
  qed
qed

lemma InverseFollowerWeight_weight_overflow:
  assumes "data_model post r f y n" and "float_limit \<le> n"
  shows "InverseFollowerWeight_weight cls post = (Inl OverflowError, post)"
proof -
  note acc = data_model_account[OF assms(1)]
  from assms(2) float_limit_pos have "n \<noteq> 0" and "float_limit \<le> \<bar>n\<bar>" by simp_all
  then show ?thesis
    unfolding InverseFollowerWeight_weight_def
    by (simp add: acc py_bind_def py_lift_def py_raise_def math_sqrt_overflow
        del: math_sqrt.simps)
qed

lemma gmean_pair:
  "0 \<le> r \<Longrightarrow> 0 \<le> f \<Longrightarrow>
   gmean [PInt r, PInt f] = Inr (geometric_mean [real_of_int r, real_of_int f])"
  by (simp add: gmean_def)

lemma gmean_triple:
  "0 \<le> r \<Longrightarrow> 0 \<le> f \<Longrightarrow> 0 \<le> y \<Longrightarrow>
   gmean [PInt r, PInt f, PInt y] =
     Inr (geometric_mean [real_of_int r, real_of_int f, real_of_int y])"
  by (simp add: gmean_def)

lemma SimpleScorer_score_value:
  assumes dm: "data_model post r f y n"
    and w: "super_weight post = (Inr (RNum w), post)"
  shows "SimpleScorer_score super_weight cls post =
           (Inr (RNum (geometric_mean [real_of_int r, real_of_int f] * w)), post)"
proof -
  from dm have r: "info post ''reblogs_count'' = Some (PInt r)"
    and f: "info post ''favourites_count'' = Some (PInt f)"
    and nn: "0 \<le> r" "0 \<le> f"
    by (simp_all add: data_model_def)
  show ?thesis
    unfolding SimpleScorer_score_def
    by (simp add: info_item_Some[OF r] info_item_Some[OF f]
        gmean_pair[OF nn] py_lift_def py_return_def w py_bind_def)
qed

lemma ExtendedSimpleScorer_score_value:
  assumes dm: "data_model post r f y n"
    and w: "super_weight post = (Inr (RNum w), post)"
  shows "ExtendedSimpleScorer_score super_weight cls post =
           (Inr (RNum (geometric_mean [real_of_int r, real_of_int f, real_of_int y] * w)), post)"
proof -
  from dm have r: "info post ''reblogs_count'' = Some (PInt r)"
    and f: "info post ''favourites_count'' = Some (PInt f)"
    and y: "info post ''replies_count'' = Some (PInt y)"
    and nn: "0 \<le> r" "0 \<le> f" "0 \<le> y"
    by (simp_all add: data_model_def)
  show ?thesis
    unfolding ExtendedSimpleScorer_score_def
    by (simp add: info_item_Some[OF r] info_item_Some[OF f]
        info_item_Some[OF y]
        gmean_triple[OF nn] py_lift_def py_return_def w py_bind_def)
qed

lemma weighted_score_value:
  assumes s: "super_score post = (Inr (RNum s), post)"
    and w: "super_weight post = (Inr (RNum w), post)"
  shows "SimpleWeightedScorer_score super_score super_weight cls post = (Inr (RNum (s * w)), post)"
    and "ExtendedSimpleWeightedScorer_score super_score super_weight cls post =
           (Inr (RNum (s * w)), post)"
  unfolding SimpleWeightedScorer_score_def ExtendedSimpleWeightedScorer_score_def
  by (simp_all add: s w py_bind_def py_lift_def py_return_def)

section \<open>Arithmetic facts\<close>

lemma data_model_mk_post:
  "0 \<le> r \<Longrightarrow> 0 \<le> f \<Longrightarrow> 0 \<le> y \<Longrightarrow> 0 \<le> n \<Longrightarrow> data_model (mk_post r f y n) r f y n"
  by (simp add: data_model_def mk_post_def)

lemma sqrt_100: "sqrt 100 = 10"
  by (rule real_sqrt_unique) simp_all

lemma geometric_mean_4_9: "geometric_mean [4, 9] = 6"
proof -
  have "geometric_mean [4, 9] = sqrt 36"
    by (simp add: geometric_mean_def powr_half_sqrt)
  also have "sqrt 36 = 6" by (rule real_sqrt_unique) simp_all
  finally show ?thesis .
qed

lemma geometric_mean_nonneg: "0 \<le> geometric_mean vs"
  by (simp add: geometric_mean_def)

lemma geometric_mean_zero: "0 \<in> set vs \<Longrightarrow> geometric_mean vs = 0"
  by (simp add: geometric_mean_def prod_list_zero_iff)

lemma cube_root_576: "\<bar>576 powr (1 / 3) - 8.3203\<bar> < (0.00005 :: real)"
proof -
  have eq: "576 powr (1 / 3) = root 3 (576 :: real)"
    using root_powr_inverse[of 3 "576 :: real"] by simp
  have "root 3 ((33281 / 4000 :: real) ^ 3) < root 3 576"
    by (rule real_root_less_mono) (simp_all add: power3_eq_cube)
  moreover have "root 3 ((33281 / 4000 :: real) ^ 3) = 33281 / 4000"
    by (rule real_root_power_cancel) simp_all
  ultimately have lo: "(33281 / 4000 :: real) < root 3 576" by (simp only:)
  have "root 3 576 < root 3 ((166407 / 20000 :: real) ^ 3)"
    by (rule real_root_less_mono) (simp_all add: power3_eq_cube)
  moreover have "root 3 ((166407 / 20000 :: real) ^ 3) = 166407 / 20000"
    by (rule real_root_power_cancel) simp_all
  ultimately have hi: "root 3 576 < (166407 / 20000 :: real)" by (simp only:)
  from lo hi have "\<bar>root 3 576 - 83203 / 10000\<bar> < (1 / 20000 :: real)" by linarith
  then show ?thesis unfolding eq by simp
qed

lemma inverse_follower_weight_bounds:
  "0 \<le> n \<Longrightarrow> 0 \<le> (if n = 0 then 0 else 1 / sqrt (real_of_int n))
     \<and> (if n = 0 then 0 else 1 / sqrt (real_of_int n)) \<le> 1"
proof (cases "n = 0")
  case True
  then show ?thesis by simp
next
  case False
  assume "0 \<le> n"
  with False have "1 \<le> real_of_int n" by simp
  then have "1 \<le> sqrt (real_of_int n)" by simp
  then show ?thesis using False by (simp add: divide_le_eq_1)
qed

section \<open>What the calls return on a post of the data model\<close>

lemma UniformWeight_weight_value: "UniformWeight_weight cls post = (Inr (RNum 1), post)"
  by (simp add: UniformWeight_weight_def py_return_def)

lemma score_SimpleScorer_value:
  assumes "data_model post r f y n"
  shows "score SimpleScorer post =
           (Inr (RNum (geometric_mean [real_of_int r, real_of_int f])), post)"
  using SimpleScorer_score_value[OF assms, where super_weight = "UniformWeight_weight SimpleScorer"
      and w = 1 and cls = SimpleScorer]
  by (simp add: score_SimpleScorer UniformWeight_weight_value)

lemma score_ExtendedSimpleScorer_value:
  assumes "data_model post r f y n"
  shows "score ExtendedSimpleScorer post =
           (Inr (RNum (geometric_mean [real_of_int r, real_of_int f, real_of_int y])), post)"
  using ExtendedSimpleScorer_score_value[OF assms,
      where super_weight = "UniformWeight_weight ExtendedSimpleScorer" and w = 1
        and cls = ExtendedSimpleScorer]
  by (simp add: score_ExtendedSimpleScorer UniformWeight_weight_value)

lemma score_SimpleWeightedScorer_value:
  assumes "data_model post r f y n" and "n < float_limit"
  shows "score SimpleWeightedScorer post =
           (Inr (RNum (geometric_mean [real_of_int r, real_of_int f] *
                       (if n = 0 then 0 else 1 / sqrt (real_of_int n)))), post)"
proof -
  have s: "SimpleScorer_score (UniformWeight_weight SimpleWeightedScorer) SimpleWeightedScorer post
             = (Inr (RNum (geometric_mean [real_of_int r, real_of_int f])), post)"
    using SimpleScorer_score_value[OF assms(1),
        where super_weight = "UniformWeight_weight SimpleWeightedScorer" and w = 1]
    by (simp add: UniformWeight_weight_value)
  show ?thesis
    unfolding score_SimpleWeightedScorer SimpleWeightedScorer_score_def
    by (simp add: py_bind_def s InverseFollowerWeight_weight_value[OF assms] py_lift_def
        py_return_def)
qed

lemma score_ExtendedSimpleWeightedScorer_value:
  assumes "data_model post r f y n" and "n < float_limit"
  shows "score ExtendedSimpleWeightedScorer post =
           (Inr (RNum (geometric_mean [real_of_int r, real_of_int f, real_of_int y] *
                       (if n = 0 then 0 else 1 / sqrt (real_of_int n)))), post)"
proof -
  have s: "ExtendedSimpleScorer_score (UniformWeight_weight ExtendedSimpleWeightedScorer)
             ExtendedSimpleWeightedScorer post
             = (Inr (RNum (geometric_mean [real_of_int r, real_of_int f, real_of_int y])), post)"
    using ExtendedSimpleScorer_score_value[OF assms(1),
        where super_weight = "UniformWeight_weight ExtendedSimpleWeightedScorer" and w = 1]
    by (simp add: UniformWeight_weight_value)
  show ?thesis
    unfolding score_ExtendedSimpleWeightedScorer ExtendedSimpleWeightedScorer_score_def
    by (simp add: py_bind_def s InverseFollowerWeight_weight_value[OF assms] py_lift_def
        py_return_def)
qed

lemma weight_InverseFollowerWeight_value:
  assumes "data_model post r f y n" and "n < float_limit"
  shows "weight InverseFollowerWeight post =
           (Inr (RNum (if n = 0 then 0 else 1 / sqrt (real_of_int n))), post)"
  by (simp add: weight_InverseFollowerWeight InverseFollowerWeight_weight_value[OF assms])

lemma weight_InverseFollowerWeight_overflow:
  assumes "data_model post r f y n" and "float_limit \<le> n"
  shows "weight InverseFollowerWeight post = (Inl OverflowError, post)"
  by (simp add: weight_InverseFollowerWeight InverseFollowerWeight_weight_overflow[OF assms])

lemma score_SimpleWeightedScorer_overflow:
  assumes "data_model post r f y n" and "float_limit \<le> n"
  shows "score SimpleWeightedScorer post = (Inl OverflowError, post)"
proof -
  have s: "SimpleScorer_score (UniformWeight_weight SimpleWeightedScorer) SimpleWeightedScorer post
             = (Inr (RNum (geometric_mean [real_of_int r, real_of_int f])), post)"
    using SimpleScorer_score_value[OF assms(1),
        where super_weight = "UniformWeight_weight SimpleWeightedScorer" and w = 1]
    by (simp add: UniformWeight_weight_value)
  show ?thesis
    unfolding score_SimpleWeightedScorer SimpleWeightedScorer_score_def
    by (simp add: py_bind_def s InverseFollowerWeight_weight_overflow[OF assms])
qed

lemma score_ExtendedSimpleWeightedScorer_overflow:
  assumes "data_model post r f y n" and "float_limit \<le> n"
  shows "score ExtendedSimpleWeightedScorer post = (Inl OverflowError, post)"
proof -
  have s: "ExtendedSimpleScorer_score (UniformWeight_weight ExtendedSimpleWeightedScorer)
             ExtendedSimpleWeightedScorer post
             = (Inr (RNum (geometric_mean [real_of_int r, real_of_int f, real_of_int y])), post)"
    using ExtendedSimpleScorer_score_value[OF assms(1),
        where super_weight = "UniformWeight_weight ExtendedSimpleWeightedScorer" and w = 1]
    by (simp add: UniformWeight_weight_value)
  show ?thesis
    unfolding score_ExtendedSimpleWeightedScorer ExtendedSimpleWeightedScorer_score_def
    by (simp add: py_bind_def s InverseFollowerWeight_weight_overflow[OF assms])
qed

lemma data_model_nonneg:
  "data_model post r f y n \<Longrightarrow> 0 \<le> r \<and> 0 \<le> f \<and> 0 \<le> y \<and> 0 \<le> n"
  by (simp add: data_model_def)

lemma geometric_mean_576: "geometric_mean [4, 9, 16] = 576 powr (1 / 3)"
  by (simp add: geometric_mean_def)

section \<open>No call writes to the post\<close>

lemma mro_Weight: "mro Weight = Some [Weight, ABC, object]"
  by code_simp

lemma mro_Scorer: "mro Scorer = Some [Scorer, ABC, object]"
  by code_simp

lemma weight_Weight: "weight Weight = Weight_weight Weight"
  unfolding weight_def mro_Weight by (simp add: class_defs)

lemma score_Scorer: "score Scorer = Scorer_score Scorer"
  unfolding score_def mro_Scorer by (simp add: class_defs)

lemma weight_SimpleScorer: "weight SimpleScorer = UniformWeight_weight SimpleScorer"
  unfolding weight_def mro_SimpleScorer by (simp add: class_defs)

lemma weight_ExtendedSimpleScorer:
  "weight ExtendedSimpleScorer = UniformWeight_weight ExtendedSimpleScorer"
  unfolding weight_def mro_ExtendedSimpleScorer by (simp add: class_defs)

lemma weight_SimpleWeightedScorer:
  "weight SimpleWeightedScorer = InverseFollowerWeight_weight SimpleWeightedScorer"
  unfolding weight_def mro_SimpleWeightedScorer by (simp add: class_defs)

lemma weight_ExtendedSimpleWeightedScorer:
  "weight ExtendedSimpleWeightedScorer = InverseFollowerWeight_weight ExtendedSimpleWeightedScorer"
  unfolding weight_def mro_ExtendedSimpleWeightedScorer by (simp add: class_defs)

lemma reads_only_return: "reads_only (py_return x)"
  by (simp add: reads_only_def py_return_def)

lemma reads_only_raise: "reads_only (py_raise e)"
  by (simp add: reads_only_def py_raise_def)

lemma reads_only_lift: "reads_only (py_lift r)"
  by (cases r) (simp_all add: py_lift_def reads_only_return reads_only_raise)

lemma reads_only_info: "reads_only scored_post_info"
  by (simp add: reads_only_def scored_post_info_def)

lemma reads_only_bind:
  assumes "reads_only m" and "\<And>x. reads_only (f x)"
  shows "reads_only (py_bind m f)"
  unfolding reads_only_def
proof
  fix post
  from assms(1) have m: "snd (m post) = post" by (simp add: reads_only_def)
  show "snd (py_bind m f post) = post"
  proof (cases "m post")
    case (Pair res post')
    with m have [simp]: "post' = post" by simp
    show ?thesis
    proof (cases res)
      case (Inl e)
      with Pair show ?thesis by (simp add: py_bind_def)
    next
      case (Inr x)
      from assms(2)[of x] have "snd (f x post) = post" by (simp add: reads_only_def)
      with Pair Inr show ?thesis by (simp add: py_bind_def)
    qed
  qed
qed

lemma reads_only_info_item: "reads_only (info_item key)"
  unfolding info_item_def by (intro reads_only_bind reads_only_info reads_only_lift)

lemma reads_only_account: "reads_only account_followers_count"
  unfolding account_followers_count_def
  by (intro reads_only_bind reads_only_info_item reads_only_lift)

lemma reads_only_InverseFollowerWeight_weight: "reads_only (InverseFollowerWeight_weight cls)"
  unfolding InverseFollowerWeight_weight_def
  by (intro reads_only_bind reads_only_account)
     (simp add: reads_only_return reads_only_bind reads_only_account reads_only_lift)

lemma reads_only_weight_in: "reads_only (weight_in order cls)"
  by (induction order)
     (simp_all add: reads_only_raise Weight_weight_def UniformWeight_weight_def
       reads_only_return reads_only_InverseFollowerWeight_weight)

lemma reads_only_SimpleScorer_score:
  "reads_only super_weight \<Longrightarrow> reads_only (SimpleScorer_score super_weight cls)"
  unfolding SimpleScorer_score_def
  by (intro reads_only_bind reads_only_info_item reads_only_lift)

lemma reads_only_ExtendedSimpleScorer_score:
  "reads_only super_weight \<Longrightarrow> reads_only (ExtendedSimpleScorer_score super_weight cls)"
  unfolding ExtendedSimpleScorer_score_def
  by (intro reads_only_bind reads_only_info_item reads_only_lift)

lemma reads_only_SimpleWeightedScorer_score:
  "reads_only super_score \<Longrightarrow> reads_only super_weight \<Longrightarrow>
   reads_only (SimpleWeightedScorer_score super_score super_weight cls)"
  unfolding SimpleWeightedScorer_score_def
  by (intro reads_only_bind reads_only_lift)

lemma reads_only_ExtendedSimpleWeightedScorer_score:
  "reads_only super_score \<Longrightarrow> reads_only super_weight \<Longrightarrow>
   reads_only (ExtendedSimpleWeightedScorer_score super_score super_weight cls)"
  unfolding ExtendedSimpleWeightedScorer_score_def
  by (intro reads_only_bind reads_only_lift)

lemma reads_only_score_in: "reads_only (score_in order cls)"
  by (induction order)
     (simp_all add: reads_only_raise Scorer_score_def reads_only_return reads_only_weight_in
       reads_only_SimpleScorer_score reads_only_ExtendedSimpleScorer_score
       reads_only_SimpleWeightedScorer_score reads_only_ExtendedSimpleWeightedScorer_score)

lemma reads_only_weight: "reads_only (weight C)"
  by (simp add: weight_def reads_only_raise reads_only_weight_in split: option.splits)

lemma reads_only_score: "reads_only (score C)"
  by (simp add: score_def reads_only_raise reads_only_score_in split: option.splits)

section \<open>What the registry holds\<close>

lemma get_scorers_value:
  "get_scorers =
     [(''ExtendedSimple'', ExtendedSimpleScorer),
      (''ExtendedSimpleWeighted'', ExtendedSimpleWeightedScorer),
      (''Simple'', SimpleScorer),
      (''SimpleWeighted'', SimpleWeightedScorer)]"
  by code_simp

lemma Scorer_not_concrete:
  "Scorer \<noteq> SimpleScorer" "Scorer \<noteq> SimpleWeightedScorer"
  "Scorer \<noteq> ExtendedSimpleScorer" "Scorer \<noteq> ExtendedSimpleWeightedScorer"
  by (simp_all add: class_defs)

lemma set_getmembers_isclass:
  "set (getmembers_isclass ns) = {(name, c). (name, ClassObj c) \<in> set ns}"
proof -
  have "set [(name, c). (name, ClassObj c) \<leftarrow> ns] = {(name, c). (name, ClassObj c) \<in> set ns}"
    by (induction ns) (auto split: member.splits)
  then show ?thesis by (simp add: getmembers_isclass_def)
qed

lemma keys_dict_setitem: "fst ` set (dict_setitem d k v) = insert k (fst ` set d)"
  by (induction d k v rule: dict_setitem.induct) auto

lemma keys_foldl_setitem:
  "fst ` set (foldl (\<lambda>d (k, v). dict_setitem d k v) d items) = fst ` set d \<union> fst ` set items"
proof (induction items arbitrary: d)
  case Nil
  show ?case by simp
next
  case (Cons item items)
  obtain k v where item: "item = (k, v)" by (cases item)
  show ?case
    unfolding item by (simp add: Cons.IH keys_dict_setitem)
qed

lemma keys_dict_of_items: "fst ` set (dict_of_items items) = fst ` set items"
  by (simp add: dict_of_items_def keys_foldl_setitem)

lemma keys_get_scorers_in:
  "fst ` set (get_scorers_in ns) =
     {py_replace ''Scorer'' [] name | name c.
        (name, ClassObj c) \<in> set ns \<and> c \<noteq> Scorer \<and> issubclass c Scorer}"
proof -
  have "fst ` set (get_scorers_in ns) =
          (\<lambda>scorer. py_replace ''Scorer'' [] (fst scorer)) `
            {scorer \<in> set (getmembers_isclass ns).
               snd scorer \<noteq> Scorer \<and> issubclass (snd scorer) Scorer}"
    by (simp add: get_scorers_in_def Let_def keys_dict_of_items image_image)
  also have "\<dots> = {py_replace ''Scorer'' [] name | name c.
        (name, ClassObj c) \<in> set ns \<and> c \<noteq> Scorer \<and> issubclass c Scorer}"
    unfolding set_getmembers_isclass by force
  finally show ?thesis .
qed

lemma py_replace_absent:
  "\<not> sublist (x # old) s \<Longrightarrow> py_replace (x # old) new s = s"
proof (induction s)
  case Nil
  then show ?case by simp
next
  case (Cons c s)
  from Cons.prems have np: "\<not> prefix (x # old) (c # s)"
    using prefix_imp_sublist by blast
  from Cons.prems have "\<not> sublist (x # old) s"
    by (auto simp: sublist_Cons_right)
  with Cons.IH have "py_replace (x # old) new s = s" by simp
  then show ?case by (simp only: py_replace.simps np if_False)
qed

lemma Scorer_no_border:
  assumes "''Scorer'' = t @ us" and "prefix us ''Scorer''" and "t \<noteq> []"
  shows "us = []"
proof -
  from assms(1,3) have "us \<in> {''corer'', ''orer'', ''rer'', ''er'', ''r'', []}"
    by (auto simp: Cons_eq_append_conv)
  with assms(2) show ?thesis by auto
qed

lemma py_replace_Scorer_suffix:
  "\<not> sublist ''Scorer'' s \<Longrightarrow> py_replace ''Scorer'' [] (s @ ''Scorer'') = s"
proof (induction s)
  case Nil
  show ?case by simp
next
  case (Cons c s)
  have np: "\<not> prefix ''Scorer'' (c # (s @ ''Scorer''))"
  proof
    assume "prefix ''Scorer'' (c # (s @ ''Scorer''))"
    then have "prefix ''Scorer'' ((c # s) @ ''Scorer'')" by (simp only: append_Cons)
    then consider "prefix ''Scorer'' (c # s)"
      | us where "''Scorer'' = (c # s) @ us" "prefix us ''Scorer''"
      unfolding prefix_append by blast
    then show False
    proof cases
      case 1
      with Cons.prems show False using prefix_imp_sublist by blast
    next
      case 2
      from Scorer_no_border[OF 2] have "us = []" by simp
      with 2(1) have "c # s = ''Scorer''" by simp
      with Cons.prems show False by (metis sublist_order.order_refl)
    qed
  qed
  from Cons.prems have "\<not> sublist ''Scorer'' s"
    by (auto simp: sublist_Cons_right)
  from Cons.IH[OF this] have "py_replace ''Scorer'' [] (s @ ''Scorer'') = s" .
  then show ?case by (simp only: append_Cons py_replace.simps np if_False)
qed

lemma set_dict_setitem: "set (dict_setitem d k v) \<subseteq> insert (k, v) (set d)"
  by (induction d k v rule: dict_setitem.induct) auto

lemma set_foldl_setitem:
  "set (foldl (\<lambda>d (k, v). dict_setitem d k v) d items) \<subseteq> set d \<union> set items"
proof (induction items arbitrary: d)
  case Nil
  show ?case by simp
next
  case (Cons item items)
  obtain k v where item: "item = (k, v)" by (cases item)
  from Cons.IH[of "dict_setitem d k v"] set_dict_setitem[of d k v]
  show ?case unfolding item by auto
qed

lemma set_dict_of_items: "set (dict_of_items items) \<subseteq> set items"
  using set_foldl_setitem[of "[]" items] by (simp add: dict_of_items_def)

lemma distinct_dict_setitem:
  "distinct (map fst d) \<Longrightarrow> distinct (map fst (dict_setitem d k v))"
proof (induction d k v rule: dict_setitem.induct)
  case (1 k v)
  show ?case by simp
next
  case (2 k' v' d k v)
  show ?case
  proof (cases "k' = k")
    case True
    with 2 show ?thesis by simp
  next
    case False
    with 2 keys_dict_setitem[of d k v] show ?thesis by auto
  qed
qed

lemma distinct_foldl_setitem:
  "distinct (map fst d) \<Longrightarrow>
   distinct (map fst (foldl (\<lambda>d (k, v). dict_setitem d k v) d items))"
proof (induction items arbitrary: d)
  case Nil
  then show ?case by simp
next
  case (Cons item items)
  obtain k v where item: "item = (k, v)" by (cases item)
  from Cons.IH[OF distinct_dict_setitem[OF Cons.prems, of k v]]
  show ?case unfolding item by simp
qed

lemma distinct_keys_get_scorers_in: "distinct (map fst (get_scorers_in ns))"
  using distinct_foldl_setitem[of "[]"] by (simp add: get_scorers_in_def Let_def dict_of_items_def)

lemma entries_get_scorers_in:
  assumes "(k, c) \<in> set (get_scorers_in ns)"
  shows "\<exists>name. (name, ClassObj c) \<in> set ns \<and> c \<noteq> Scorer \<and> issubclass c Scorer \<and>
                k = py_replace ''Scorer'' [] name"
proof -
  from assms set_dict_of_items
  have "(k, c) \<in> set (map (\<lambda>scorer. (py_replace ''Scorer'' [] (fst scorer), snd scorer))
            (filter (\<lambda>c. snd c \<noteq> Scorer \<and> issubclass (snd c) Scorer) (getmembers_isclass ns)))"
    unfolding get_scorers_in_def Let_def by blast
  then obtain name where "(name, c) \<in> set (getmembers_isclass ns)"
    and "c \<noteq> Scorer" and "issubclass c Scorer" and "k = py_replace ''Scorer'' [] name"
    by auto
  then show ?thesis unfolding set_getmembers_isclass by blast
qed

lemma retained_get_scorers_in:
  assumes e: "(name, ClassObj c) \<in> set ns" "c \<noteq> Scorer" "issubclass c Scorer"
    and u: "\<And>name' c'. (name', ClassObj c') \<in> set ns \<Longrightarrow> c' \<noteq> Scorer \<Longrightarrow> issubclass c' Scorer \<Longrightarrow>
              py_replace ''Scorer'' [] name' = py_replace ''Scorer'' [] name \<Longrightarrow> c' = c"
  shows "(py_replace ''Scorer'' [] name, c) \<in> set (get_scorers_in ns)"
proof -
  from e have "py_replace ''Scorer'' [] name \<in> fst ` set (get_scorers_in ns)"
    unfolding keys_get_scorers_in by blast
  then obtain c' where in': "(py_replace ''Scorer'' [] name, c') \<in> set (get_scorers_in ns)"
    by auto
  from entries_get_scorers_in[OF in'] obtain name' where
    "(name', ClassObj c') \<in> set ns" "c' \<noteq> Scorer" "issubclass c' Scorer"
    "py_replace ''Scorer'' [] name = py_replace ''Scorer'' [] name'"
    by blast
  then have "c' = c" using u[of name' c'] by simp
  with in' show ?thesis by simp
qed

lemma Simple_in_registry: "(''Simple'', SimpleScorer) \<in> set (get_scorers_in module_namespace)"
  using get_scorers_value by (simp add: get_scorers_def)

section \<open>Outside the data model, and beyond the floats\<close>

text \<open>
  The data model is what keeps the lookups from raising and the weight below 1: a missing
  counter is a \<^verbatim>\<open>KeyError\<close>, a negative follower count a \<^verbatim>\<open>ValueError\<close>, and a
  fractional follower count weighs more than 1. It does not bound the follower count,
  and a count of \<open>2^1024\<close> is beyond what \<^verbatim>\<open>math.sqrt\<close> can convert.
\<close>

lemma hundred_below_float_limit: "(100 :: int) < float_limit" "(25 :: int) < float_limit"
  "(0 :: int) < float_limit" "\<not> float_limit \<le> 4"
  using below_float_limit[of 100] below_float_limit[of 25] below_float_limit[of 0]
    below_float_limit[of 4]
  by simp_all

lemma data_model_huge: "data_model (mk_post r f y (2 ^ 1024)) r f y (2 ^ 1024)"
  if "0 \<le> r" "0 \<le> f" "0 \<le> y"
  using that by (intro data_model_mk_post) simp_all

lemma missing_counter_raises:
  "score SimpleScorer \<lparr>info = Map.empty\<rparr> = (Inl (KeyError ''reblogs_count''), \<lparr>info = Map.empty\<rparr>)"
  by (simp add: score_SimpleScorer SimpleScorer_score_def py_bind_def info_item_None)

lemma negative_followers_raise:
  "weight InverseFollowerWeight
     \<lparr>info = [''account'' \<mapsto> PDict [''followers_count'' \<mapsto> PInt (- 4)]]\<rparr>
   = (Inl ValueError, \<lparr>info = [''account'' \<mapsto> PDict [''followers_count'' \<mapsto> PInt (- 4)]]\<rparr>)"
  by (simp add: weight_InverseFollowerWeight InverseFollowerWeight_weight_def py_bind_def
      account_followers_count_def info_item_Some py_lift_def dict_getitem_def py_return_def
      py_raise_def int_to_float_def hundred_below_float_limit)

lemma sqrt_quarter: "sqrt (1 / 4) = 1 / 2"
  by (rule real_sqrt_unique) (simp_all add: power2_eq_square)

lemma fractional_followers_weigh_more_than_one:
  "weight InverseFollowerWeight
     \<lparr>info = [''account'' \<mapsto> PDict [''followers_count'' \<mapsto> PFloat (1 / 4)]]\<rparr>
   = (Inr (RNum 2), \<lparr>info = [''account'' \<mapsto> PDict [''followers_count'' \<mapsto> PFloat (1 / 4)]]\<rparr>)"
  by (simp add: weight_InverseFollowerWeight InverseFollowerWeight_weight_def py_bind_def
      account_followers_count_def info_item_Some py_lift_def dict_getitem_def py_return_def
      py_raise_def py_truediv_def sqrt_quarter)

section \<open>The weights\<close>

text \<open>
  C7: for every post, with no precondition on its fields, \<^verbatim>\<open>UniformWeight.weight(post)\<close>
  returns exactly 1 (and leaves the post as it was).
\<close>

theorem UniformWeight_weight_is_one:
  "weight UniformWeight post = (Inr (RNum 1), post)"
  by (simp add: weight_UniformWeight UniformWeight_weight_def py_return_def)

theorem UniformWeight_weight_is_one_witness:
  "weight UniformWeight \<lparr>info = Map.empty\<rparr> = (Inr (RNum 1), \<lparr>info = Map.empty\<rparr>)
   \<and> weight UniformWeight (mk_post 4 9 16 100) = (Inr (RNum 1), mk_post 4 9 16 100)"
  using UniformWeight_weight_is_one [of "\<lparr>info = Map.empty\<rparr>"]
    UniformWeight_weight_is_one [of "mk_post 4 9 16 100"]
  by simp

text \<open>
  C2, as the specification states it: on every post of the data model with a positive
  follower count, \<^verbatim>\<open>InverseFollowerWeight.weight(post)\<close> returns
  \<open>1 / sqrt(followers_count)\<close>. With \<open>2^1024\<close> followers, a non-negative integer, the call
  raises \<^verbatim>\<open>OverflowError\<close> instead.
\<close>

theorem InverseFollowerWeight_weight_overflow_counterexample:
  "data_model (mk_post 4 9 16 (2 ^ 1024)) 4 9 16 (2 ^ 1024) \<and> (0 :: int) < 2 ^ 1024 \<and>
   weight InverseFollowerWeight (mk_post 4 9 16 (2 ^ 1024))
     = (Inl OverflowError, mk_post 4 9 16 (2 ^ 1024))"
proof -
  have a: "data_model (mk_post 4 9 16 (2 ^ 1024)) 4 9 16 (2 ^ 1024)"
    by (rule data_model_huge) simp_all
  from a weight_InverseFollowerWeight_overflow[OF a float_limit_le_2_1024]
  show ?thesis by simp
qed

text \<open>
  C2, amended: on a post of the data model, \<^verbatim>\<open>InverseFollowerWeight.weight(post)\<close>
  returns 0 when the author has no follower, and \<open>1 / sqrt(followers_count)\<close> when the
  count is positive and below \<open>2^1024 - 2^970\<close>; from that bound on, the count cannot be
  converted to a float and the call raises \<^verbatim>\<open>OverflowError\<close>.
\<close>

theorem InverseFollowerWeight_weight_spec:
  assumes "data_model post r f y n"
  shows "(n = 0 \<longrightarrow> weight InverseFollowerWeight post = (Inr (RNum 0), post)) \<and>
         (0 < n \<and> n < float_limit \<longrightarrow>
            weight InverseFollowerWeight post = (Inr (RNum (1 / sqrt (real_of_int n))), post)) \<and>
         (float_limit \<le> n \<longrightarrow> weight InverseFollowerWeight post = (Inl OverflowError, post))"
proof (intro conjI impI)
  assume "n = 0"
  with float_limit_pos have "n < float_limit" by simp
  from weight_InverseFollowerWeight_value[OF assms this] \<open>n = 0\<close>
  show "weight InverseFollowerWeight post = (Inr (RNum 0), post)" by simp
next
  assume "0 < n \<and> n < float_limit"
  then have "n < float_limit" "n \<noteq> 0" by simp_all
  from weight_InverseFollowerWeight_value[OF assms this(1)] this(2)
  show "weight InverseFollowerWeight post = (Inr (RNum (1 / sqrt (real_of_int n))), post)"
    by simp
next
  assume "float_limit \<le> n"
  then show "weight InverseFollowerWeight post = (Inl OverflowError, post)"
    by (rule weight_InverseFollowerWeight_overflow[OF assms])
qed

theorem InverseFollowerWeight_weight_spec_witness:
  "data_model (mk_post 4 9 16 0) 4 9 16 0 \<and>
   weight InverseFollowerWeight (mk_post 4 9 16 0) = (Inr (RNum 0), mk_post 4 9 16 0) \<and>
   data_model (mk_post 4 9 16 100) 4 9 16 100 \<and> (0 :: int) < 100 \<and> 100 < float_limit \<and>
   weight InverseFollowerWeight (mk_post 4 9 16 100) = (Inr (RNum (1 / 10)), mk_post 4 9 16 100) \<and>
   data_model (mk_post 4 9 16 (2 ^ 1024)) 4 9 16 (2 ^ 1024) \<and> float_limit \<le> 2 ^ 1024 \<and>
   weight InverseFollowerWeight (mk_post 4 9 16 (2 ^ 1024))
     = (Inl OverflowError, mk_post 4 9 16 (2 ^ 1024))"
proof -
  have a: "data_model (mk_post 4 9 16 0) 4 9 16 0" by (simp add: data_model_mk_post)
  have b: "data_model (mk_post 4 9 16 100) 4 9 16 100" by (simp add: data_model_mk_post)
  have c: "data_model (mk_post 4 9 16 (2 ^ 1024)) 4 9 16 (2 ^ 1024)"
    by (rule data_model_huge) simp_all
  from InverseFollowerWeight_weight_spec[OF a]
  have 1: "weight InverseFollowerWeight (mk_post 4 9 16 0) = (Inr (RNum 0), mk_post 4 9 16 0)"
    by simp
  from InverseFollowerWeight_weight_spec[OF b] hundred_below_float_limit(1)
  have 2: "weight InverseFollowerWeight (mk_post 4 9 16 100)
             = (Inr (RNum (1 / 10)), mk_post 4 9 16 100)"
    by (simp add: sqrt_100)
  from InverseFollowerWeight_weight_spec[OF c] float_limit_le_2_1024
  have 3: "weight InverseFollowerWeight (mk_post 4 9 16 (2 ^ 1024))
             = (Inl OverflowError, mk_post 4 9 16 (2 ^ 1024))"
    by blast
  from a b c 1 2 3 hundred_below_float_limit(1) float_limit_le_2_1024
  show ?thesis by (intro conjI) simp_all
qed

section \<open>The scores\<close>

text \<open>
  C1, as the specification states it: on every post of the data model the weighted scores
  are the geometric mean times the inverse-follower weight. With \<open>2^1024\<close> followers both
  weighted scores raise \<^verbatim>\<open>OverflowError\<close>, though the geometric mean is 6.
\<close>

theorem weighted_scores_overflow_counterexample:
  "data_model (mk_post 4 9 16 (2 ^ 1024)) 4 9 16 (2 ^ 1024) \<and>
   gmean [PInt 4, PInt 9] = Inr 6 \<and>
   score SimpleWeightedScorer (mk_post 4 9 16 (2 ^ 1024))
     = (Inl OverflowError, mk_post 4 9 16 (2 ^ 1024)) \<and>
   score ExtendedSimpleWeightedScorer (mk_post 4 9 16 (2 ^ 1024))
     = (Inl OverflowError, mk_post 4 9 16 (2 ^ 1024))"
proof -
  have a: "data_model (mk_post 4 9 16 (2 ^ 1024)) 4 9 16 (2 ^ 1024)"
    by (rule data_model_huge) simp_all
  have g: "gmean [PInt 4, PInt 9] = Inr 6" by (simp add: gmean_def geometric_mean_4_9)
  from a g score_SimpleWeightedScorer_overflow[OF a float_limit_le_2_1024]
    score_ExtendedSimpleWeightedScorer_overflow[OF a float_limit_le_2_1024]
  show ?thesis by (intro conjI)
qed

text \<open>
  C1, amended: on a post of the data model whose follower count is below
  \<open>2^1024 - 2^970\<close>, each weighted strategy applies the inverse-follower weight exactly once:
  \<^verbatim>\<open>SimpleWeightedScorer.score(post)\<close> is the geometric mean of reblogs and favourites
  times \<^verbatim>\<open>InverseFollowerWeight.weight(post)\<close>, and
  \<^verbatim>\<open>ExtendedSimpleWeightedScorer.score(post)\<close> is the geometric mean of reblogs,
  favourites and replies times that weight; the uniform weight met on the way is the
  factor 1.
\<close>

theorem weighted_scores_weigh_once:
  assumes "data_model post r f y n" and "n < float_limit"
  shows "\<exists>g2 g3 w.
           gmean [PInt r, PInt f] = Inr g2 \<and>
           gmean [PInt r, PInt f, PInt y] = Inr g3 \<and>
           weight InverseFollowerWeight post = (Inr (RNum w), post) \<and>
           score SimpleWeightedScorer post = (Inr (RNum (g2 * w)), post) \<and>
           score ExtendedSimpleWeightedScorer post = (Inr (RNum (g3 * w)), post)"
proof -
  from data_model_nonneg[OF assms(1)] have nn: "0 \<le> r" "0 \<le> f" "0 \<le> y" by simp_all
  show ?thesis
    using gmean_pair[OF nn(1,2)] gmean_triple[OF nn]
      weight_InverseFollowerWeight_value[OF assms]
      score_SimpleWeightedScorer_value[OF assms]
      score_ExtendedSimpleWeightedScorer_value[OF assms]
    by blast
qed

theorem weighted_scores_weigh_once_witness:
  "data_model (mk_post 4 9 16 100) 4 9 16 100 \<and> 100 < float_limit \<and>
   weight InverseFollowerWeight (mk_post 4 9 16 100) = (Inr (RNum (1 / 10)), mk_post 4 9 16 100) \<and>
   gmean [PInt 4, PInt 9] = Inr 6 \<and>
   score SimpleWeightedScorer (mk_post 4 9 16 100) = (Inr (RNum (6 / 10)), mk_post 4 9 16 100) \<and>
   (\<exists>g3. gmean [PInt 4, PInt 9, PInt 16] = Inr g3 \<and>
      score ExtendedSimpleWeightedScorer (mk_post 4 9 16 100)
        = (Inr (RNum (g3 * (1 / 10))), mk_post 4 9 16 100))"
proof -
  have a: "data_model (mk_post 4 9 16 100) 4 9 16 100" by (simp add: data_model_mk_post)
  note b = hundred_below_float_limit(1)
  from weighted_scores_weigh_once[OF a b] obtain g2 g3 w where
    g2: "gmean [PInt 4, PInt 9] = Inr g2" and
    g3: "gmean [PInt 4, PInt 9, PInt 16] = Inr g3" and
    w: "weight InverseFollowerWeight (mk_post 4 9 16 100) = (Inr (RNum w), mk_post 4 9 16 100)" and
    s2: "score SimpleWeightedScorer (mk_post 4 9 16 100) = (Inr (RNum (g2 * w)), mk_post 4 9 16 100)" and
    s3: "score ExtendedSimpleWeightedScorer (mk_post 4 9 16 100)
           = (Inr (RNum (g3 * w)), mk_post 4 9 16 100)"
    by blast
  from g2 have g2v: "g2 = 6" by (simp add: gmean_def geometric_mean_4_9)
  from w have wv: "w = 1 / 10"
    by (simp add: weight_InverseFollowerWeight_value[OF a b] sqrt_100)
  from a b g2 g3 w s2 s3 show ?thesis unfolding g2v wv by simp
qed

text \<open>
  C3, as the specification states it: with a zero counter every strategy scores 0,
  regardless of the follower count. With no reblog and \<open>2^1024\<close> followers the unweighted
  score is 0, and both weighted scores raise \<^verbatim>\<open>OverflowError\<close>.
\<close>

theorem zero_counter_overflow_counterexample:
  "data_model (mk_post 0 9 16 (2 ^ 1024)) 0 9 16 (2 ^ 1024) \<and>
   score SimpleScorer (mk_post 0 9 16 (2 ^ 1024)) = (Inr (RNum 0), mk_post 0 9 16 (2 ^ 1024)) \<and>
   score SimpleWeightedScorer (mk_post 0 9 16 (2 ^ 1024))
     = (Inl OverflowError, mk_post 0 9 16 (2 ^ 1024)) \<and>
   score ExtendedSimpleWeightedScorer (mk_post 0 9 16 (2 ^ 1024))
     = (Inl OverflowError, mk_post 0 9 16 (2 ^ 1024))"
proof -
  have a: "data_model (mk_post 0 9 16 (2 ^ 1024)) 0 9 16 (2 ^ 1024)"
    by (rule data_model_huge) simp_all
  have "geometric_mean [real_of_int 0, real_of_int 9] = 0"
    by (intro geometric_mean_zero) simp
  with score_SimpleScorer_value[OF a]
  have s: "score SimpleScorer (mk_post 0 9 16 (2 ^ 1024))
             = (Inr (RNum 0), mk_post 0 9 16 (2 ^ 1024))"
    by (simp only:)
  from a s score_SimpleWeightedScorer_overflow[OF a float_limit_le_2_1024]
    score_ExtendedSimpleWeightedScorer_overflow[OF a float_limit_le_2_1024]
  show ?thesis by (intro conjI)
qed

text \<open>
  C3, amended: on a post of the data model, as soon as one of the counters a strategy
  aggregates is 0 (reblogs or favourites for the two-metric strategies; reblogs,
  favourites or replies for the three-metric ones), the unweighted strategy scores exactly
  0 whatever the follower count, and the weighted strategy scores exactly 0 for every
  follower count below \<open>2^1024 - 2^970\<close>.
\<close>

theorem zero_counter_gives_zero_score:
  assumes "data_model post r f y n"
  shows "(r = 0 \<or> f = 0 \<longrightarrow>
            score SimpleScorer post = (Inr (RNum 0), post) \<and>
            (n < float_limit \<longrightarrow> score SimpleWeightedScorer post = (Inr (RNum 0), post))) \<and>
         (r = 0 \<or> f = 0 \<or> y = 0 \<longrightarrow>
            score ExtendedSimpleScorer post = (Inr (RNum 0), post) \<and>
            (n < float_limit \<longrightarrow>
               score ExtendedSimpleWeightedScorer post = (Inr (RNum 0), post)))"
proof (intro conjI impI)
  assume z: "r = 0 \<or> f = 0"
  then have g: "geometric_mean [real_of_int r, real_of_int f] = 0"
    by (intro geometric_mean_zero) auto
  show "score SimpleScorer post = (Inr (RNum 0), post)"
    by (simp add: score_SimpleScorer_value[OF assms] g)
  assume b: "n < float_limit"
  show "score SimpleWeightedScorer post = (Inr (RNum 0), post)"
    by (simp add: score_SimpleWeightedScorer_value[OF assms b] g)
next
  assume z: "r = 0 \<or> f = 0 \<or> y = 0"
  then have g: "geometric_mean [real_of_int r, real_of_int f, real_of_int y] = 0"
    by (intro geometric_mean_zero) auto
  show "score ExtendedSimpleScorer post = (Inr (RNum 0), post)"
    by (simp add: score_ExtendedSimpleScorer_value[OF assms] g)
  assume b: "n < float_limit"
  show "score ExtendedSimpleWeightedScorer post = (Inr (RNum 0), post)"
    by (simp add: score_ExtendedSimpleWeightedScorer_value[OF assms b] g)
qed

theorem zero_counter_gives_zero_score_witness:
  "data_model (mk_post 0 9 16 100) 0 9 16 100 \<and> 100 < float_limit \<and>
   score SimpleScorer (mk_post 0 9 16 100) = (Inr (RNum 0), mk_post 0 9 16 100) \<and>
   score SimpleWeightedScorer (mk_post 0 9 16 100) = (Inr (RNum 0), mk_post 0 9 16 100) \<and>
   data_model (mk_post 4 9 0 25) 4 9 0 25 \<and> 25 < float_limit \<and>
   score ExtendedSimpleScorer (mk_post 4 9 0 25) = (Inr (RNum 0), mk_post 4 9 0 25) \<and>
   score ExtendedSimpleWeightedScorer (mk_post 4 9 0 25) = (Inr (RNum 0), mk_post 4 9 0 25)"
proof -
  have a: "data_model (mk_post 0 9 16 100) 0 9 16 100" by (simp add: data_model_mk_post)
  have b: "data_model (mk_post 4 9 0 25) 4 9 0 25" by (simp add: data_model_mk_post)
  show ?thesis
    using a b hundred_below_float_limit(1,2)
      zero_counter_gives_zero_score[OF a] zero_counter_gives_zero_score[OF b]
    by simp
qed

text \<open>
  C6: on a post of the data model the unweighted strategies return the bare geometric
  mean of their counters: \<open>(r \<cdot> f)^(1/2)\<close> for \<^verbatim>\<open>SimpleScorer\<close> and \<open>(r \<cdot> f \<cdot> y)^(1/3)\<close>
  for \<^verbatim>\<open>ExtendedSimpleScorer\<close>, which is what the geometric mean gives on these
  counters; for 4 reblogs, 9 favourites and 16 replies the extended score is
  \<open>576^(1/3)\<close>, within 0.00005 of 8.3203.
\<close>

theorem unweighted_scores_are_geometric_means:
  assumes "data_model post r f y n"
  shows "score SimpleScorer post =
           (Inr (RNum ((real_of_int r * real_of_int f) powr (1 / 2))), post) \<and>
         score ExtendedSimpleScorer post =
           (Inr (RNum ((real_of_int r * real_of_int f * real_of_int y) powr (1 / 3))), post) \<and>
         gmean [PInt r, PInt f] = Inr ((real_of_int r * real_of_int f) powr (1 / 2)) \<and>
         gmean [PInt r, PInt f, PInt y] =
           Inr ((real_of_int r * real_of_int f * real_of_int y) powr (1 / 3)) \<and>
         score ExtendedSimpleScorer (mk_post 4 9 16 0) =
           (Inr (RNum (576 powr (1 / 3))), mk_post 4 9 16 0) \<and>
         \<bar>576 powr (1 / 3) - 8.3203\<bar> < (0.00005 :: real)"
proof -
  from data_model_nonneg[OF assms] have nn: "0 \<le> r" "0 \<le> f" "0 \<le> y" by simp_all
  have ex: "data_model (mk_post 4 9 16 0) 4 9 16 0" by (simp add: data_model_mk_post)
  have "score ExtendedSimpleScorer (mk_post 4 9 16 0) =
          (Inr (RNum (576 powr (1 / 3))), mk_post 4 9 16 0)"
    using score_ExtendedSimpleScorer_value[OF ex] by (simp add: geometric_mean_576)
  moreover have "score SimpleScorer post =
           (Inr (RNum ((real_of_int r * real_of_int f) powr (1 / 2))), post)"
    by (simp add: score_SimpleScorer_value[OF assms] geometric_mean_def)
  moreover have "score ExtendedSimpleScorer post =
           (Inr (RNum ((real_of_int r * real_of_int f * real_of_int y) powr (1 / 3))), post)"
    by (simp add: score_ExtendedSimpleScorer_value[OF assms] geometric_mean_def mult.assoc)
  moreover have "gmean [PInt r, PInt f] = Inr ((real_of_int r * real_of_int f) powr (1 / 2))"
    by (simp add: gmean_pair[OF nn(1,2)] geometric_mean_def)
  moreover have "gmean [PInt r, PInt f, PInt y] =
           Inr ((real_of_int r * real_of_int f * real_of_int y) powr (1 / 3))"
    by (simp add: gmean_triple[OF nn] geometric_mean_def mult.assoc)
  ultimately show ?thesis using cube_root_576 by simp
qed

theorem unweighted_scores_are_geometric_means_witness:
  "data_model (mk_post 4 9 16 0) 4 9 16 0 \<and>
   score SimpleScorer (mk_post 4 9 16 0) = (Inr (RNum 6), mk_post 4 9 16 0) \<and>
   score ExtendedSimpleScorer (mk_post 4 9 16 0) = (Inr (RNum (576 powr (1 / 3))), mk_post 4 9 16 0)"
proof -
  have a: "data_model (mk_post 4 9 16 0) 4 9 16 0" by (simp add: data_model_mk_post)
  have "(36 :: real) powr (1 / 2) = 6"
    using geometric_mean_4_9 by (simp add: geometric_mean_def)
  with a unweighted_scores_are_geometric_means[OF a] show ?thesis by simp
qed

text \<open>
  C10, as the specification states it: on every post of the data model the weighted
  score is at most the unweighted one, the weight lying in [0, 1]. With \<open>2^1024\<close>
  followers the unweighted score is 6, and neither a weight nor a weighted score is
  returned: both calls raise \<^verbatim>\<open>OverflowError\<close>.
\<close>

theorem weighted_score_overflow_counterexample:
  "data_model (mk_post 4 9 16 (2 ^ 1024)) 4 9 16 (2 ^ 1024) \<and>
   score SimpleScorer (mk_post 4 9 16 (2 ^ 1024)) = (Inr (RNum 6), mk_post 4 9 16 (2 ^ 1024)) \<and>
   score SimpleWeightedScorer (mk_post 4 9 16 (2 ^ 1024))
     = (Inl OverflowError, mk_post 4 9 16 (2 ^ 1024)) \<and>
   weight InverseFollowerWeight (mk_post 4 9 16 (2 ^ 1024))
     = (Inl OverflowError, mk_post 4 9 16 (2 ^ 1024))"
proof -
  have a: "data_model (mk_post 4 9 16 (2 ^ 1024)) 4 9 16 (2 ^ 1024)"
    by (rule data_model_huge) simp_all
  have "geometric_mean [real_of_int 4, real_of_int 9] = 6"
    using geometric_mean_4_9 by simp
  with score_SimpleScorer_value[OF a]
  have s: "score SimpleScorer (mk_post 4 9 16 (2 ^ 1024))
             = (Inr (RNum 6), mk_post 4 9 16 (2 ^ 1024))"
    by (simp only:)
  from a s score_SimpleWeightedScorer_overflow[OF a float_limit_le_2_1024]
    weight_InverseFollowerWeight_overflow[OF a float_limit_le_2_1024]
  show ?thesis by (intro conjI)
qed

text \<open>
  C10, amended: on a post of the data model whose follower count is below
  \<open>2^1024 - 2^970\<close>, the weighted score never exceeds the unweighted one, for the two-metric
  and for the three-metric strategy, the inverse-follower weight lying between 0 and 1.
\<close>

theorem weighted_score_at_most_unweighted:
  assumes "data_model post r f y n" and "n < float_limit"
  shows "\<exists>w s2 s3 u2 u3.
           weight InverseFollowerWeight post = (Inr (RNum w), post) \<and> 0 \<le> w \<and> w \<le> 1 \<and>
           score SimpleWeightedScorer post = (Inr (RNum s2), post) \<and>
           score SimpleScorer post = (Inr (RNum u2), post) \<and> s2 \<le> u2 \<and>
           score ExtendedSimpleWeightedScorer post = (Inr (RNum s3), post) \<and>
           score ExtendedSimpleScorer post = (Inr (RNum u3), post) \<and> s3 \<le> u3"
proof -
  define w where "w = (if n = 0 then 0 else 1 / sqrt (real_of_int n))"
  from data_model_nonneg[OF assms(1)] have "0 \<le> n" by simp
  from inverse_follower_weight_bounds[OF this] have w: "0 \<le> w" "w \<le> 1"
    by (simp_all add: w_def)
  have le: "g * w \<le> g" if "0 \<le> g" for g :: real
    using that w mult_left_le[of w g] by (simp add: mult.commute)
  show ?thesis
    using weight_InverseFollowerWeight_value[OF assms]
      score_SimpleWeightedScorer_value[OF assms] score_SimpleScorer_value[OF assms(1)]
      score_ExtendedSimpleWeightedScorer_value[OF assms]
      score_ExtendedSimpleScorer_value[OF assms(1)]
      w le[OF geometric_mean_nonneg[of "[real_of_int r, real_of_int f]"]]
      le[OF geometric_mean_nonneg[of "[real_of_int r, real_of_int f, real_of_int y]"]]
    unfolding w_def[symmetric] by blast
qed

theorem weighted_score_at_most_unweighted_witness:
  "data_model (mk_post 4 9 16 100) 4 9 16 100 \<and> 100 < float_limit \<and>
   (\<exists>w s2 s3 u2 u3.
      weight InverseFollowerWeight (mk_post 4 9 16 100) = (Inr (RNum w), mk_post 4 9 16 100) \<and>
      0 \<le> w \<and> w \<le> 1 \<and>
      score SimpleWeightedScorer (mk_post 4 9 16 100) = (Inr (RNum s2), mk_post 4 9 16 100) \<and>
      score SimpleScorer (mk_post 4 9 16 100) = (Inr (RNum u2), mk_post 4 9 16 100) \<and> s2 \<le> u2 \<and>
      score ExtendedSimpleWeightedScorer (mk_post 4 9 16 100)
        = (Inr (RNum s3), mk_post 4 9 16 100) \<and>
      score ExtendedSimpleScorer (mk_post 4 9 16 100) = (Inr (RNum u3), mk_post 4 9 16 100) \<and>
      s3 \<le> u3)"
proof -
  have a: "data_model (mk_post 4 9 16 100) 4 9 16 100" by (simp add: data_model_mk_post)
  note b = hundred_below_float_limit(1)
  from a b weighted_score_at_most_unweighted[OF a b] show ?thesis by (intro conjI)
qed

section \<open>Totality and purity\<close>

text \<open>
  C8, as the specification states it: on every post of the data model no weight and no
  score operation raises. With \<open>2^1024\<close> followers the inverse-follower weight raises
  \<^verbatim>\<open>OverflowError\<close>, and with it the weighted strategies.
\<close>

theorem operations_raise_counterexample:
  "data_model (mk_post 4 9 16 (2 ^ 1024)) 4 9 16 (2 ^ 1024) \<and>
   weight InverseFollowerWeight (mk_post 4 9 16 (2 ^ 1024))
     = (Inl OverflowError, mk_post 4 9 16 (2 ^ 1024)) \<and>
   weight SimpleWeightedScorer (mk_post 4 9 16 (2 ^ 1024))
     = (Inl OverflowError, mk_post 4 9 16 (2 ^ 1024)) \<and>
   score ExtendedSimpleWeightedScorer (mk_post 4 9 16 (2 ^ 1024))
     = (Inl OverflowError, mk_post 4 9 16 (2 ^ 1024))"
proof -
  have a: "data_model (mk_post 4 9 16 (2 ^ 1024)) 4 9 16 (2 ^ 1024)"
    by (rule data_model_huge) simp_all
  have w: "weight SimpleWeightedScorer (mk_post 4 9 16 (2 ^ 1024))
     = (Inl OverflowError, mk_post 4 9 16 (2 ^ 1024))"
    unfolding weight_SimpleWeightedScorer
    by (rule InverseFollowerWeight_weight_overflow[OF a float_limit_le_2_1024])
  from a weight_InverseFollowerWeight_overflow[OF a float_limit_le_2_1024] w
    score_ExtendedSimpleWeightedScorer_overflow[OF a float_limit_le_2_1024]
  show ?thesis by (intro conjI)
qed

text \<open>
  C8, amended: on a post of the data model the uniform weight, the unweighted scores and
  the abstract methods never raise; the inverse-follower weight and the weighted scores
  do not raise when the follower count is below \<open>2^1024 - 2^970\<close>. There no key is
  missing, no square root is taken of a negative number and no division is by zero.
\<close>

theorem operations_do_not_raise:
  assumes "data_model post r f y n"
  shows "(\<forall>C \<in> set [UniformWeight, SimpleScorer, ExtendedSimpleScorer].
            weight C post = (Inr (RNum 1), post)) \<and>
         (\<forall>C \<in> set [SimpleScorer, ExtendedSimpleScorer].
            \<exists>s. score C post = (Inr (RNum s), post)) \<and>
         weight Weight post = (Inr RNone, post) \<and>
         score Scorer post = (Inr RNone, post) \<and>
         (n < float_limit \<longrightarrow>
            (\<forall>C \<in> set [InverseFollowerWeight, SimpleWeightedScorer,
                        ExtendedSimpleWeightedScorer].
               \<exists>w. weight C post = (Inr (RNum w), post) \<and> 0 \<le> w) \<and>
            (\<forall>C \<in> set [SimpleWeightedScorer, ExtendedSimpleWeightedScorer].
               \<exists>s. score C post = (Inr (RNum s), post)))"
proof -
  from data_model_nonneg[OF assms] have "0 \<le> n" by simp
  note b = inverse_follower_weight_bounds[OF this]
  have 1: "\<forall>C \<in> set [UniformWeight, SimpleScorer, ExtendedSimpleScorer].
            weight C post = (Inr (RNum 1), post)"
    by (simp add: weight_UniformWeight weight_SimpleScorer weight_ExtendedSimpleScorer
        UniformWeight_weight_value)
  have 2: "\<forall>C \<in> set [SimpleScorer, ExtendedSimpleScorer].
            \<exists>s. score C post = (Inr (RNum s), post)"
    using score_SimpleScorer_value[OF assms] score_ExtendedSimpleScorer_value[OF assms]
    by simp
  have 3: "weight Weight post = (Inr RNone, post)"
    by (simp add: weight_Weight Weight_weight_def py_return_def)
  have 4: "score Scorer post = (Inr RNone, post)"
    by (simp add: score_Scorer Scorer_score_def py_return_def)
  have 5: "\<forall>C \<in> set [InverseFollowerWeight, SimpleWeightedScorer,
                        ExtendedSimpleWeightedScorer].
               \<exists>w. weight C post = (Inr (RNum w), post) \<and> 0 \<le> w"
    if lim: "n < float_limit"
    using b
    by (auto simp: weight_InverseFollowerWeight weight_SimpleWeightedScorer
        weight_ExtendedSimpleWeightedScorer InverseFollowerWeight_weight_value[OF assms lim])
  have 6: "\<forall>C \<in> set [SimpleWeightedScorer, ExtendedSimpleWeightedScorer].
               \<exists>s. score C post = (Inr (RNum s), post)"
    if lim: "n < float_limit"
    using score_SimpleWeightedScorer_value[OF assms lim]
      score_ExtendedSimpleWeightedScorer_value[OF assms lim]
    by simp
  from 1 2 3 4 5 6 show ?thesis by blast
qed

theorem operations_do_not_raise_witness:
  "data_model (mk_post 4 9 16 100) 4 9 16 100 \<and> 100 < float_limit \<and>
   weight SimpleScorer (mk_post 4 9 16 100) = (Inr (RNum 1), mk_post 4 9 16 100) \<and>
   (\<exists>w. weight SimpleWeightedScorer (mk_post 4 9 16 100) = (Inr (RNum w), mk_post 4 9 16 100)
        \<and> 0 \<le> w) \<and>
   (\<exists>s. score ExtendedSimpleWeightedScorer (mk_post 4 9 16 100)
          = (Inr (RNum s), mk_post 4 9 16 100)) \<and>
   weight Weight (mk_post 4 9 16 100) = (Inr RNone, mk_post 4 9 16 100)"
proof -
  have a: "data_model (mk_post 4 9 16 100) 4 9 16 100" by (simp add: data_model_mk_post)
  note b = hundred_below_float_limit(1)
  show ?thesis using a b operations_do_not_raise[OF a] by simp
qed

text \<open>
  C9: for every post and every class, calling \<^verbatim>\<open>weight\<close> or \<^verbatim>\<open>score\<close> leaves the
  post as it was, and a second call on the post the first call left gives the same
  result again.
\<close>

theorem calls_leave_post_unchanged:
  "snd (weight C post) = post \<and> weight C (snd (weight C post)) = weight C post \<and>
   snd (score C post) = post \<and> score C (snd (score C post)) = score C post"
  using reads_only_weight[of C] reads_only_score[of C] by (simp add: reads_only_def)

theorem calls_leave_post_unchanged_witness:
  "snd (weight SimpleWeightedScorer (mk_post 4 9 16 100)) = mk_post 4 9 16 100 \<and>
   weight SimpleWeightedScorer (snd (weight SimpleWeightedScorer (mk_post 4 9 16 100)))
     = weight SimpleWeightedScorer (mk_post 4 9 16 100) \<and>
   snd (score SimpleWeightedScorer (mk_post 4 9 16 100)) = mk_post 4 9 16 100 \<and>
   score SimpleWeightedScorer (snd (score SimpleWeightedScorer (mk_post 4 9 16 100)))
     = score SimpleWeightedScorer (mk_post 4 9 16 100)"
  by (rule calls_leave_post_unchanged)

section \<open>The registry of strategies\<close>

text \<open>
  C4: \<^verbatim>\<open>get_scorers()\<close> returns a mapping whose keys are exactly \<open>Simple\<close>,
  \<open>SimpleWeighted\<close>, \<open>ExtendedSimple\<close> and \<open>ExtendedSimpleWeighted\<close>, each mapped to the
  strategy class it names, with no entry for the abstract base \<^verbatim>\<open>Scorer\<close>.
\<close>

theorem get_scorers_registry:
  "get_scorers =
     [(''ExtendedSimple'', ExtendedSimpleScorer),
      (''ExtendedSimpleWeighted'', ExtendedSimpleWeightedScorer),
      (''Simple'', SimpleScorer),
      (''SimpleWeighted'', SimpleWeightedScorer)] \<and>
   fst ` set get_scorers =
     {''Simple'', ''SimpleWeighted'', ''ExtendedSimple'', ''ExtendedSimpleWeighted''} \<and>
   map_of get_scorers ''Simple'' = Some SimpleScorer \<and>
   map_of get_scorers ''SimpleWeighted'' = Some SimpleWeightedScorer \<and>
   map_of get_scorers ''ExtendedSimple'' = Some ExtendedSimpleScorer \<and>
   map_of get_scorers ''ExtendedSimpleWeighted'' = Some ExtendedSimpleWeightedScorer \<and>
   Scorer \<notin> snd ` set get_scorers \<and>
   map_of get_scorers ''Scorer'' = None \<and> map_of get_scorers '''' = None"
  unfolding get_scorers_value using Scorer_not_concrete by auto

theorem get_scorers_registry_witness:
  "(case map_of get_scorers ''SimpleWeighted'' of
      None \<Rightarrow> (Inl (KeyError ''SimpleWeighted''), mk_post 4 9 16 100)
    | Some strategy \<Rightarrow> score strategy (mk_post 4 9 16 100))
   = (Inr (RNum (6 / 10)), mk_post 4 9 16 100)"
proof -
  have a: "data_model (mk_post 4 9 16 100) 4 9 16 100" by (simp add: data_model_mk_post)
  have "map_of get_scorers ''SimpleWeighted'' = Some SimpleWeightedScorer"
    using get_scorers_registry by simp
  then show ?thesis
    using score_SimpleWeightedScorer_value[OF a hundred_below_float_limit(1)]
    by (simp add: geometric_mean_4_9 sqrt_100)
qed

text \<open>
  C5, as the specification states it: the key of a retained class is its name without
  the suffix \<open>Scorer\<close>, and a name that does not end in \<open>Scorer\<close> is kept whole. The code
  calls \<^verbatim>\<open>replace("Scorer", "")\<close>, which removes the word wherever it stands: in a
  module that also defines \<^verbatim>\<open>class ScorerEnsemble(Scorer)\<close>, a name that does not end in
  \<open>Scorer\<close>, the class is registered under \<open>Ensemble\<close>.
\<close>

theorem key_is_name_without_suffix_counterexample:
  "\<not> suffix ''Scorer'' ''ScorerEnsemble'' \<and>
   get_scorers_in (module_namespace @
       [(''ScorerEnsemble'', ClassObj (Cls ''ScorerEnsemble'' [Scorer]))]) =
     [(''ExtendedSimple'', ExtendedSimpleScorer),
      (''ExtendedSimpleWeighted'', ExtendedSimpleWeightedScorer),
      (''Ensemble'', Cls ''ScorerEnsemble'' [Scorer]),
      (''Simple'', SimpleScorer),
      (''SimpleWeighted'', SimpleWeightedScorer)]"
  by code_simp

text \<open>
  C5, amended: every entry of the registry pairs a retained class with the key made of
  its name with every occurrence of \<open>Scorer\<close> removed, and a retained class whose key no
  other retained class shares is registered under it; no key occurs twice. For a name
  made of a stem free of \<open>Scorer\<close> followed by \<open>Scorer\<close> the key is the stem, and a name
  in which \<open>Scorer\<close> does not occur is kept unmodified.
\<close>

theorem registry_key_is_name_without_Scorer:
  "((k, c) \<in> set (get_scorers_in ns) \<longrightarrow>
      (\<exists>name. (name, ClassObj c) \<in> set ns \<and> c \<noteq> Scorer \<and> issubclass c Scorer \<and>
               k = py_replace ''Scorer'' [] name)) \<and>
   ((name, ClassObj d) \<in> set ns \<and> d \<noteq> Scorer \<and> issubclass d Scorer \<and>
    (\<forall>name' d'. (name', ClassObj d') \<in> set ns \<and> d' \<noteq> Scorer \<and> issubclass d' Scorer \<and>
        py_replace ''Scorer'' [] name' = py_replace ''Scorer'' [] name \<longrightarrow> d' = d) \<longrightarrow>
      (py_replace ''Scorer'' [] name, d) \<in> set (get_scorers_in ns)) \<and>
   distinct (map fst (get_scorers_in ns)) \<and>
   fst ` set (get_scorers_in ns) =
     {py_replace ''Scorer'' [] name | name c.
        (name, ClassObj c) \<in> set ns \<and> c \<noteq> Scorer \<and> issubclass c Scorer} \<and>
   (\<not> sublist ''Scorer'' stem \<longrightarrow> py_replace ''Scorer'' [] (stem @ ''Scorer'') = stem) \<and>
   (\<not> sublist ''Scorer'' name \<longrightarrow> py_replace ''Scorer'' [] name = name)"
proof (intro conjI impI)
  assume "(k, c) \<in> set (get_scorers_in ns)"
  then show "\<exists>name. (name, ClassObj c) \<in> set ns \<and> c \<noteq> Scorer \<and> issubclass c Scorer \<and>
               k = py_replace ''Scorer'' [] name"
    by (rule entries_get_scorers_in)
next
  assume a: "(name, ClassObj d) \<in> set ns \<and> d \<noteq> Scorer \<and> issubclass d Scorer \<and>
    (\<forall>name' d'. (name', ClassObj d') \<in> set ns \<and> d' \<noteq> Scorer \<and> issubclass d' Scorer \<and>
        py_replace ''Scorer'' [] name' = py_replace ''Scorer'' [] name \<longrightarrow> d' = d)"
  show "(py_replace ''Scorer'' [] name, d) \<in> set (get_scorers_in ns)"
  proof (rule retained_get_scorers_in)
    from a show "(name, ClassObj d) \<in> set ns" "d \<noteq> Scorer" "issubclass d Scorer" by simp_all
  next
    fix name' c'
    assume "(name', ClassObj c') \<in> set ns" "c' \<noteq> Scorer" "issubclass c' Scorer"
      "py_replace ''Scorer'' [] name' = py_replace ''Scorer'' [] name"
    with a show "c' = d" by blast
  qed
next
  show "distinct (map fst (get_scorers_in ns))" by (rule distinct_keys_get_scorers_in)
next
  show "fst ` set (get_scorers_in ns) =
     {py_replace ''Scorer'' [] name | name c.
        (name, ClassObj c) \<in> set ns \<and> c \<noteq> Scorer \<and> issubclass c Scorer}"
    by (rule keys_get_scorers_in)
next
  assume "\<not> sublist ''Scorer'' stem"
  then show "py_replace ''Scorer'' [] (stem @ ''Scorer'') = stem"
    by (rule py_replace_Scorer_suffix)
next
  assume "\<not> sublist ''Scorer'' name"
  then show "py_replace ''Scorer'' [] name = name"
    using py_replace_absent[of "CHR ''S''" "''corer''" name "[]"] by simp
qed

theorem registry_key_is_name_without_Scorer_witness:
  "(''Simple'', SimpleScorer) \<in> set (get_scorers_in module_namespace) \<and>
   (\<exists>name. (name, ClassObj SimpleScorer) \<in> set module_namespace \<and> SimpleScorer \<noteq> Scorer \<and>
            issubclass SimpleScorer Scorer \<and> ''Simple'' = py_replace ''Scorer'' [] name) \<and>
   distinct (map fst (get_scorers_in module_namespace)) \<and>
   \<not> sublist ''Scorer'' ''SimpleWeighted'' \<and>
   py_replace ''Scorer'' [] (''SimpleWeighted'' @ ''Scorer'') = ''SimpleWeighted'' \<and>
   \<not> sublist ''Scorer'' ''Ensemble'' \<and>
   py_replace ''Scorer'' [] ''Ensemble'' = ''Ensemble''"
proof -
  have a: "\<not> sublist ''Scorer'' ''SimpleWeighted''" by (simp add: sublist_code)
  have b: "\<not> sublist ''Scorer'' ''Ensemble''" by (simp add: sublist_code)
  from a b Simple_in_registry
    registry_key_is_name_without_Scorer[of "''Simple''" SimpleScorer module_namespace
      "''Ensemble''" SimpleScorer "''SimpleWeighted''"]
  show ?thesis by blast
qed

end
